theory Spec2Isabelle
  imports Main "HOL-Library.Char_ord" "HOL-Library.List_Lexorder"
begin

section \<open>Strings and errors\<close>

text \<open>
  Go strings are byte sequences and are modelled as \<^typ>\<open>string\<close>. The comparison
  \<open><\<close> on Go strings is the bytewise lexicographic order; it is the order on
  \<^typ>\<open>char list\<close> given by the two imported library theories.

  \<open>strings.ToLower\<close> and \<open>strings.ToUpper\<close> are functions of Go's library on Unicode
  text. The model does not fix them: they are the field \<open>ToUpper\<close> of the record \<open>env\<close>
  and the field \<open>ToLower\<close> of the record \<open>senv\<close> below, and what is proved holds whatever
  functions they are.
\<close>

text \<open>\<open>strings.Split(s, "\n")\<close>: always at least one piece.\<close>

fun Split_nl :: "string \<Rightarrow> string list" where
  "Split_nl [] = [[]]"
| "Split_nl (c # cs) =
     (if c = CHR 0x0A then [] # Split_nl cs
      else (case Split_nl cs of
              [] \<Rightarrow> [[c]]
            | r # rs \<Rightarrow> (c # r) # rs))"

text \<open>\<open>strings.HasPrefix\<close>.\<close>

definition HasPrefix :: "string \<Rightarrow> string \<Rightarrow> bool" where
  "HasPrefix s p = (take (length p) s = p)"

text \<open>
  Go \<open>error\<close> values, and the run-time panics the modelled code can raise (a nil
  pointer dereference, a slice bound out of range).
\<close>

datatype error = ErrHandshakeFailed | Err string

datatype panic = NilDereference | SliceBounds

section \<open>The Slack bridge (package slack)\<close>

subsection \<open>Data\<close>

record UserProfile =
  P_FirstName :: string
  P_LastName :: string
  P_RealName :: string
  P_DisplayName :: string

record slack_User =
  U_ID :: string
  U_TeamID :: string
  U_Name :: string
  U_RealName :: string
  U_Profile :: UserProfile

text \<open>\<open>bridge.UserInfo\<close>, with the fields the bridge fills in.\<close>

record UserInfo =
  Nick :: string
  User :: string
  Real :: string
  Host :: string
  Roles :: string
  DisplayName :: string
  Ghost :: bool
  Me :: bool
  Username :: string
  FirstName :: string
  LastName :: string
  TeamID :: string

text \<open>The zero value \<open>&bridge.UserInfo{}\<close>.\<close>

definition empty_UserInfo :: UserInfo where
  "empty_UserInfo =
     \<lparr>Nick = [], User = [], Real = [], Host = [], Roles = [], DisplayName = [],
      Ghost = False, Me = False, Username = [], FirstName = [], LastName = [],
      TeamID = []\<rparr>"

datatype Event_Data =
    ChannelMessageEvent string string UserInfo
  | DirectMessageEvent string string UserInfo UserInfo
  | ChannelAddEvent "UserInfo list" "UserInfo option" string
  | ChannelRemoveEvent "UserInfo list" string
  | LogoutEvent

text \<open>
  \<open>ChannelMessageEvent text channelID sender\<close>,
  \<open>DirectMessageEvent text channelID sender receiver\<close>,
  \<open>ChannelAddEvent added adder channelID\<close>, \<open>ChannelRemoveEvent removed channelID\<close>.
\<close>

record Event =
  Type :: string
  Data :: Event_Data

record Attachment =
  Pretext :: string
  A_Text :: string

record File =
  Mode :: string
  F_Name :: string
  Title :: string
  Filetype :: string
  URLPrivate :: string

record Msg =
  M_User :: string
  M_Text :: string
  M_Timestamp :: string

text \<open>\<open>slack.MessageEvent\<close>; \<open>SubMessage\<close> is a pointer, \<open>None\<close> is nil.\<close>

record MessageEvent =
  E_SubType :: string
  E_User :: string
  E_Channel :: string
  E_Timestamp :: string
  E_Text :: string
  E_DeletedTimestamp :: string
  E_ThreadTimestamp :: string
  E_BotID :: string
  E_Username :: string
  E_Attachments :: "Attachment list"
  E_Files :: "File list"
  E_SubMessage :: "Msg option"

text \<open>
  The events of \<open>rtm.IncomingEvents\<close> that \<open>handleSlack\<close> distinguishes. A reaction
  event carries the acting user, the item's channel, the item's timestamp and the
  reaction; a star or pin event carries the user, the item's channel and the item's
  message (a pointer: timestamp and text, or nil).
\<close>

datatype rtm_event =
    MessageEv MessageEvent
  | MemberLeftChannelEvent string string
  | MemberJoinedChannelEvent string string string
  | DisconnectedEvent
  | ReactionAddedEvent string string string string
  | ReactionRemovedEvent string string string string
  | StarAddedEvent string string "(string \<times> string) option"
  | StarRemovedEvent string string "(string \<times> string) option"
  | PinAddedEvent string string "(string \<times> string) option"
  | PinRemovedEvent string string "(string \<times> string) option"
  | OtherEvent

text \<open>
  The state of one \<open>Slack\<close> value: \<open>sinfo\<close> (the local account and its team), the user
  cache, the last-sent message id per channel, and the two effects of the handlers: the
  events sent on \<open>eventChan\<close>, oldest first, and the durations (in milliseconds) of the
  calls of \<open>time.Sleep\<close>.
\<close>

record Slack =
  sinfo_User_ID :: string
  sinfo_User_Name :: string
  sinfo_Team_ID :: string
  susers :: "string \<rightharpoonup> slack_User"
  connected :: bool
  msgLast :: "string \<rightharpoonup> string"
  eventChan :: "Event list"
  slept :: "nat list"

text \<open>
  What the handlers call outside this file: the Slack client (\<open>GetUserInfo\<close>,
  \<open>GetBotInfo\<close>, \<open>GetUsersInConversation\<close>, \<open>PostMessage\<close>), the configuration
  (\<open>GetBool\<close>), and the helpers \<open>formatTS\<close>, \<open>cleanupMessage\<close> and \<open>isValidNick\<close> of the
  package, which are defined in files outside the ones modelled here. \<open>sprintfEmpty\<close> is the text
  \<open>fmt.Sprintf("Empty: %#v", rmsg)\<close>. \<open>ToUpper\<close> is \<open>strings.ToUpper\<close>. \<open>during_sleep\<close> is
  what the concurrent senders (\<open>MsgChannel\<close>, \<open>MsgUser\<close>) do to \<open>msgLast\<close> while a handler
  sleeps.
\<close>

record env =
  GetUserInfo :: "string \<Rightarrow> error + slack_User"
  GetBotInfo :: "string \<Rightarrow> error + string"
  GetUsersInConversation :: "string \<Rightarrow> string list"
  PostMessage :: "string \<Rightarrow> string \<Rightarrow> error + string"
  GetBool :: "string \<Rightarrow> bool"
  formatTS :: "string \<Rightarrow> string"
  cleanupMessage :: "string \<Rightarrow> string"
  isValidNick :: "string \<Rightarrow> bool"
  sprintfEmpty :: "MessageEvent \<Rightarrow> string"
  ToUpper :: "string \<Rightarrow> string"
  during_sleep :: "(string \<rightharpoonup> string) \<Rightarrow> (string \<rightharpoonup> string)"

text \<open>A Go map of strings read at a key: the zero value when the key is absent.\<close>

definition map_get :: "(string \<rightharpoonup> string) \<Rightarrow> string \<Rightarrow> string" where
  "map_get m k = (case m k of None \<Rightarrow> [] | Some v \<Rightarrow> v)"

definition time_Sleep :: "env \<Rightarrow> nat \<Rightarrow> Slack \<Rightarrow> Slack" where
  "time_Sleep env ms s = s\<lparr>msgLast := during_sleep env (msgLast s), slept := slept s @ [ms]\<rparr>"

definition send :: "Event \<Rightarrow> Slack \<Rightarrow> Slack" where
  "send ev s = s\<lparr>eventChan := eventChan s @ [ev]\<rparr>"

subsection \<open>Sending\<close>

definition MsgChannel :: "env \<Rightarrow> Slack \<Rightarrow> string \<Rightarrow> string \<Rightarrow> Slack \<times> (error + string)" where
  "MsgChannel env s channelID text =
     (case PostMessage env (ToUpper env channelID) text of
        Inl err \<Rightarrow> (s, Inl err)
      | Inr msgID \<Rightarrow>
          (s\<lparr>msgLast := (msgLast s)(ToUpper env channelID \<mapsto> msgID)\<rparr>, Inr msgID))"

subsection \<open>Users\<close>

definition createUser :: "env \<Rightarrow> Slack \<Rightarrow> slack_User option \<Rightarrow> UserInfo" where
  "createUser env s slackuser =
     (case slackuser of
        None \<Rightarrow> empty_UserInfo
      | Some su \<Rightarrow>
          (let nick = (if (GetBool env ''slack.PreferNickname'' \<or> GetBool env ''slack.UseDisplayName'')
                          \<and> isValidNick env (P_DisplayName (U_Profile su))
                       then P_DisplayName (U_Profile su) else U_Name su);
               me = (if U_ID su = sinfo_User_ID s then True else False)
           in \<lparr>Nick = nick, User = U_ID su, Real = U_RealName su, Host = ''host'',
               Roles = [], DisplayName = P_DisplayName (U_Profile su), Ghost = True,
               Me = me, Username = P_RealName (U_Profile su),
               FirstName = P_FirstName (U_Profile su),
               LastName = P_LastName (U_Profile su), TeamID = sinfo_Team_ID s\<rparr>))"

text \<open>\<open>getSlackUser\<close> returns nil (\<open>None\<close>) when the user is not cached and the lookup fails.\<close>

definition getSlackUser :: "env \<Rightarrow> Slack \<Rightarrow> string \<Rightarrow> Slack \<times> slack_User option" where
  "getSlackUser env s userID =
     (case susers s userID of
        Some user \<Rightarrow> (s, Some user)
      | None \<Rightarrow>
          (case GetUserInfo env userID of
             Inl err \<Rightarrow> (s, None)
           | Inr user \<Rightarrow> (s\<lparr>susers := (susers s)(U_ID user \<mapsto> user)\<rparr>, Some user)))"

definition GetUser :: "env \<Rightarrow> Slack \<Rightarrow> string \<Rightarrow> Slack \<times> UserInfo" where
  "GetUser env s userID =
     (case getSlackUser env s userID of (s', su) \<Rightarrow> (s', createUser env s' su))"

definition GetMe :: "env \<Rightarrow> Slack \<Rightarrow> UserInfo" where
  "GetMe env s =
     createUser env s (case GetUserInfo env (sinfo_User_ID s) of
                         Inl err \<Rightarrow> None
                       | Inr me \<Rightarrow> Some me)"

subsection \<open>Membership events\<close>

definition handleMemberLeftChannel :: "env \<Rightarrow> Slack \<Rightarrow> string \<Rightarrow> string \<Rightarrow> Slack" where
  "handleMemberLeftChannel env s user channel =
     (case GetUser env s user of
        (s', removed) \<Rightarrow>
          send \<lparr>Type = ''channel_remove'', Data = ChannelRemoveEvent [removed] channel\<rparr> s')"

definition handleMemberJoinedChannel ::
  "env \<Rightarrow> Slack \<Rightarrow> string \<Rightarrow> string \<Rightarrow> string \<Rightarrow> Slack" where
  "handleMemberJoinedChannel env s user channel inviter =
     (case (if inviter \<noteq> []
            then (case GetUser env s inviter of
                    (s', i) \<Rightarrow> (s', Some (empty_UserInfo\<lparr>Nick := Nick i\<rparr>)))
            else (s, None)) of
        (s1, adder) \<Rightarrow>
          (case GetUser env s1 user of
             (s2, added) \<Rightarrow>
               send \<lparr>Type = ''channel_add'', Data = ChannelAddEvent [added] adder channel\<rparr> s2))"

subsection \<open>Direct and public messages\<close>

definition sendDirectMessage :: "UserInfo \<Rightarrow> UserInfo \<Rightarrow> string \<Rightarrow> string \<Rightarrow> Slack \<Rightarrow> Slack" where
  "sendDirectMessage sender receiver msg channelID s =
     send \<lparr>Type = ''direct_message'', Data = DirectMessageEvent msg channelID sender receiver\<rparr> s"

definition sendPublicMessage :: "UserInfo \<Rightarrow> string \<Rightarrow> string \<Rightarrow> Slack \<Rightarrow> Slack" where
  "sendPublicMessage ghost msg channelID s =
     send \<lparr>Type = ''channel_message'', Data = ChannelMessageEvent msg channelID ghost\<rparr> s"

text \<open>
  The loop over the members of a direct conversation, written twice in the source (in
  \<open>handleActionMisc\<close> and in \<open>handleSlackActionPost\<close>): every member other than the local
  account replaces the receiver.
\<close>

fun receiver_loop :: "env \<Rightarrow> Slack \<Rightarrow> string list \<Rightarrow> UserInfo \<Rightarrow> UserInfo" where
  "receiver_loop env s [] receiver = receiver"
| "receiver_loop env s (member # members) receiver =
     (if member = User (GetMe env s) then receiver_loop env s members receiver
      else receiver_loop env s members
             (createUser env s (case GetUserInfo env member of
                                  Inl err \<Rightarrow> None
                                | Inr ghostuser \<Rightarrow> Some ghostuser)))"

definition direct_receiver :: "env \<Rightarrow> Slack \<Rightarrow> UserInfo \<Rightarrow> string \<Rightarrow> UserInfo" where
  "direct_receiver env s ghost channelID =
     (if Me ghost then receiver_loop env s (GetUsersInConversation env channelID) ghost
      else ghost)"

definition handleActionMisc :: "env \<Rightarrow> Slack \<Rightarrow> string \<Rightarrow> string \<Rightarrow> string \<Rightarrow> Slack" where
  "handleActionMisc env s userID channelID msg =
     (case GetUserInfo env userID of
        Inl err \<Rightarrow> s
      | Inr suser \<Rightarrow>
          (let ghost = createUser env s (Some suser)
           in if HasPrefix channelID ''D''
              then sendDirectMessage ghost (direct_receiver env s ghost channelID) msg channelID s
              else send \<lparr>Type = ''channel_message'',
                         Data = ChannelMessageEvent msg channelID ghost\<rparr> s))"

subsection \<open>Chat messages\<close>

text \<open>
  The check for the local account's own message, at the head of
  \<open>handleSlackActionPost\<close>. The result says whether the handler returns at once.
\<close>

definition own_echo :: "env \<Rightarrow> Slack \<Rightarrow> MessageEvent \<Rightarrow> Slack \<times> bool" where
  "own_echo env s rmsg =
     (if E_User rmsg = sinfo_User_ID s
      then (let lastmsg = map_get (msgLast s) (E_Channel rmsg)
            in if lastmsg < E_Timestamp rmsg
               then (let s' = time_Sleep env 100 s;
                         lastmsg' = map_get (msgLast s') (E_Channel rmsg)
                     in (s', lastmsg' = E_Timestamp rmsg))
               else (s, lastmsg = E_Timestamp rmsg))
      else (s, False))"

definition getSlackUserFromMessage ::
  "env \<Rightarrow> Slack \<Rightarrow> MessageEvent \<Rightarrow> panic + (error + slack_User)" where
  "getSlackUserFromMessage env s rmsg =
     (case (if E_SubType rmsg = ''message_changed''
            then (case E_SubMessage rmsg of None \<Rightarrow> Inl NilDereference | Some m \<Rightarrow> Inr (M_User m))
            else Inr (E_User rmsg)) of
        Inl p \<Rightarrow> Inl p
      | Inr usr0 \<Rightarrow>
          (let usr = (if E_SubType rmsg = ''message_deleted'' then ''USLACKBOT'' else usr0)
           in if E_SubType rmsg = ''bot_message''
              then (let suser = \<lparr>U_ID = E_BotID rmsg, U_TeamID = sinfo_Team_ID s,
                                  U_Name = E_Username rmsg, U_RealName = [],
                                  U_Profile = \<lparr>P_FirstName = ''bot'', P_LastName = ''bot'',
                                               P_RealName = ''bot'', P_DisplayName = []\<rparr>\<rparr>
                    in if E_Username rmsg = []
                       then (case GetBotInfo env (E_BotID rmsg) of
                               Inl err \<Rightarrow> Inl NilDereference
                             | Inr bot_Name \<Rightarrow>
                                 Inr (Inr (suser\<lparr>U_Name := bot_Name,
                                                 U_Profile := (U_Profile suser)\<lparr>P_DisplayName := bot_Name\<rparr>\<rparr>)))
                       else Inr (Inr suser))
              else (case GetUserInfo env usr of
                      Inl err \<Rightarrow> Inr (Inl err)
                    | Inr suser \<Rightarrow> Inr (Inr suser))))"

text \<open>
  The rows of one attachment body: every row is quoted, and after the row of index 5 the
  marker is appended and the loop left.
\<close>

fun attach_rows :: "nat \<Rightarrow> string list \<Rightarrow> string list" where
  "attach_rows i [] = []"
| "attach_rows i (row # rows) =
     (''> '' @ row) # (if i > 4 then [''> ...''] else attach_rows (i + 1) rows)"

text \<open>The loop over the attachments, on the pair of \<open>msgs\<close> and \<open>msghandled\<close>.\<close>

fun attach_loop :: "Attachment list \<Rightarrow> string list \<times> bool \<Rightarrow> string list \<times> bool" where
  "attach_loop [] acc = acc"
| "attach_loop (attach # rest) (msgs, msghandled) =
     (case (if Pretext attach \<noteq> [] then (msgs @ Split_nl (Pretext attach), True)
            else (msgs, msghandled)) of
        (msgs1, handled1) \<Rightarrow>
          if A_Text attach = [] then attach_loop rest (msgs1, handled1)
          else attach_loop rest (msgs1 @ attach_rows 0 (Split_nl (A_Text attach)), True))"

fun file_loop :: "File list \<Rightarrow> string list \<times> bool \<Rightarrow> string list \<times> bool" where
  "file_loop [] acc = acc"
| "file_loop (file # rest) (msgs, msghandled) =
     file_loop rest
       (msgs @ [''Uploaded '' @ Mode file @ '' '' @ F_Name file @ '' / '' @ Title file
                @ '' ('' @ Filetype file @ ''): '' @ URLPrivate file], True)"

text \<open>\<open>msgs[0] = marker + msgs[0]\<close>, guarded in the source by \<open>len(msgs) > 0\<close>.\<close>

definition mark_first :: "string \<Rightarrow> string list \<Rightarrow> string list" where
  "mark_first marker msgs = (case msgs of [] \<Rightarrow> [] | m # ms \<Rightarrow> (marker @ m) # ms)"

text \<open>
  The lines of a message and the flag \<open>msghandled\<close>, as they stand before the final loop
  of \<open>handleSlackActionPost\<close>; \<open>rmsg\<close> is the event after the text of a deleted message
  has been replaced.
\<close>

definition render :: "env \<Rightarrow> MessageEvent \<Rightarrow> panic + (string list \<times> bool)" where
  "render env rmsg =
     (case file_loop (E_Files rmsg)
             (attach_loop (E_Attachments rmsg)
                (if E_Text rmsg \<noteq> [] then (Split_nl (E_Text rmsg), True) else ([], False))) of
        (msgs, msghandled) \<Rightarrow>
          (let msgs1 = (if msghandled \<and> E_ThreadTimestamp rmsg \<noteq> [] \<and> length msgs > 0
                        then mark_first (''[T '' @ formatTS env (E_ThreadTimestamp rmsg) @ ''] '') msgs
                        else msgs)
           in if E_SubType rmsg = ''message_changed''
              then (case E_SubMessage rmsg of
                      None \<Rightarrow> Inl NilDereference
                    | Some sub \<Rightarrow>
                        Inr (mark_first (''[C '' @ formatTS env (M_Timestamp sub) @ ''] '')
                               (msgs1 @ Split_nl (M_Text sub)), True))
              else Inr (msgs1, msghandled)))"

text \<open>The final loop: one event for every line.\<close>

fun dispatch :: "env \<Rightarrow> MessageEvent \<Rightarrow> UserInfo \<Rightarrow> bool \<Rightarrow> string list \<Rightarrow> Slack \<Rightarrow> Slack" where
  "dispatch env rmsg ghost msghandled [] s = s"
| "dispatch env rmsg ghost msghandled (msg # msgs) s =
     (let msg1 = cleanupMessage env msg;
          msg2 = (if \<not> msghandled then sprintfEmpty env rmsg else msg1)
      in dispatch env rmsg ghost msghandled msgs
           (if HasPrefix (E_Channel rmsg) ''D''
            then sendDirectMessage ghost (direct_receiver env s ghost (E_Channel rmsg))
                   msg2 (E_Channel rmsg) s
            else sendPublicMessage ghost msg2 (E_Channel rmsg) s))"

text \<open>
  What \<open>handleSlackActionPost\<close> does once the own-message check has let the event pass;
  first the text of a deleted message is replaced.
\<close>

definition mark_deleted :: "env \<Rightarrow> MessageEvent \<Rightarrow> MessageEvent" where
  "mark_deleted env rmsg =
     (if E_SubType rmsg = ''message_deleted''
      then rmsg\<lparr>E_Text := ''[M '' @ formatTS env (E_DeletedTimestamp rmsg) @ ''] Message deleted''\<rparr>
      else rmsg)"

definition forward :: "env \<Rightarrow> Slack \<Rightarrow> MessageEvent \<Rightarrow> panic + Slack" where
  "forward env s rmsg0 =
     (let rmsg = mark_deleted env rmsg0
      in case getSlackUserFromMessage env s rmsg of
           Inl p \<Rightarrow> Inl p
         | Inr (Inl err) \<Rightarrow> Inr s
         | Inr (Inr suser) \<Rightarrow>
             (let ghost = createUser env s (Some suser)
              in case render env rmsg of
                   Inl p \<Rightarrow> Inl p
                 | Inr (msgs, msghandled) \<Rightarrow> Inr (dispatch env rmsg ghost msghandled msgs s)))"

definition handleSlackActionPost :: "env \<Rightarrow> Slack \<Rightarrow> MessageEvent \<Rightarrow> panic + Slack" where
  "handleSlackActionPost env s rmsg =
     (case own_echo env s rmsg of
        (s', True) \<Rightarrow> Inr s'
      | (s', False) \<Rightarrow> forward env s' rmsg)"

subsection \<open>The event loop\<close>

text \<open>One turn of the loop of \<open>handleSlack\<close>.\<close>

fun handleSlack_event :: "env \<Rightarrow> Slack \<Rightarrow> rtm_event \<Rightarrow> panic + Slack" where
  "handleSlack_event env s (MessageEv ev) =
     (if E_SubType ev \<in> {''group_join'', ''channel_join'', ''group_leave'', ''channel_leave''}
      then Inr s else handleSlackActionPost env s ev)"
| "handleSlack_event env s (MemberLeftChannelEvent user channel) =
     Inr (handleMemberLeftChannel env s user channel)"
| "handleSlack_event env s (MemberJoinedChannelEvent user channel inviter) =
     Inr (handleMemberJoinedChannel env s user channel inviter)"
| "handleSlack_event env s DisconnectedEvent = Inr s"
| "handleSlack_event env s (ReactionAddedEvent user channel timestamp reaction) =
     Inr (handleActionMisc env s user channel
            (''[M '' @ formatTS env timestamp @ ''] Added reaction :'' @ reaction @ '':''))"
| "handleSlack_event env s (ReactionRemovedEvent user channel timestamp reaction) =
     Inr (handleActionMisc env s user channel
            (''[M '' @ formatTS env timestamp @ ''] Removed reaction :'' @ reaction @ '':''))"
| "handleSlack_event env s (StarAddedEvent user channel message) =
     (case message of
        None \<Rightarrow> Inr s
      | Some (timestamp, text) \<Rightarrow>
          Inr (handleActionMisc env s user channel
                 (''[M '' @ formatTS env timestamp @ ''] Message starred ('' @ text @ '')'')))"
| "handleSlack_event env s (StarRemovedEvent user channel message) =
     (case message of
        None \<Rightarrow> Inr s
      | Some (timestamp, text) \<Rightarrow>
          Inr (handleActionMisc env s user channel
                 (''[M '' @ formatTS env timestamp @ ''] Message unstarred ('' @ text @ '')'')))"
| "handleSlack_event env s (PinAddedEvent user channel message) =
     (case message of
        None \<Rightarrow> Inr s
      | Some (timestamp, text) \<Rightarrow>
          Inr (handleActionMisc env s user channel
                 (''[M '' @ formatTS env timestamp @ ''] Message pinned ('' @ text @ '')'')))"
| "handleSlack_event env s (PinRemovedEvent user channel message) =
     (case message of
        None \<Rightarrow> Inr s
      | Some (timestamp, text) \<Rightarrow>
          Inr (handleActionMisc env s user channel
                 (''[M '' @ formatTS env timestamp @ ''] Message unpinned ('' @ text @ '')'')))"
| "handleSlack_event env s OtherEvent = Inr s"

fun handleSlack :: "env \<Rightarrow> Slack \<Rightarrow> rtm_event list \<Rightarrow> panic + Slack" where
  "handleSlack env s [] = Inr s"
| "handleSlack env s (msg # msgs) =
     (case handleSlack_event env s msg of
        Inl p \<Rightarrow> Inl p
      | Inr s' \<Rightarrow> handleSlack env s' msgs)"

section \<open>The IRC server (package irckit)\<close>

subsection \<open>Data\<close>

text \<open>
  \<open>*User\<close> and \<open>Channel\<close> values are pointers: addresses into the two stores of the
  server state. Two lookups yield the identical instance when they yield the same address.
\<close>

type_synonym uref = nat
type_synonym cref = nat

record irc_Prefix =
  PName :: string
  PUser :: string
  PHost :: string

record irc_Message =
  Prefix :: "irc_Prefix option"
  Command :: string
  Params :: "string list"
  Trailing :: string

text \<open>The command names and numerics of the IRC library that the server uses.\<close>

definition irc_NICK :: string where "irc_NICK = ''NICK''"
definition irc_USER :: string where "irc_USER = ''USER''"
definition irc_PASS :: string where "irc_PASS = ''PASS''"
definition irc_JOIN :: string where "irc_JOIN = ''JOIN''"
definition irc_ERR_NICKNAMEINUSE :: string where "irc_ERR_NICKNAMEINUSE = ''433''"
definition irc_ERR_NOTREGISTERED :: string where "irc_ERR_NOTREGISTERED = ''451''"
definition irc_RPL_WELCOME :: string where "irc_RPL_WELCOME = ''001''"
definition irc_RPL_YOURHOST :: string where "irc_RPL_YOURHOST = ''002''"
definition irc_RPL_CREATED :: string where "irc_RPL_CREATED = ''003''"
definition irc_RPL_MYINFO :: string where "irc_RPL_MYINFO = ''004''"
definition irc_RPL_LUSERCLIENT :: string where "irc_RPL_LUSERCLIENT = ''251''"

record ChannelInfo =
  CI_Name :: string
  CI_ID :: string
  CI_TeamID :: string
  DM :: bool
  Private :: bool

definition empty_ChannelInfo :: ChannelInfo where
  "empty_ChannelInfo = \<lparr>CI_Name = [], CI_ID = [], CI_TeamID = [], DM = False, Private = False\<rparr>"

text \<open>The methods of \<open>bridge.Bridger\<close> that the server calls to build a channel.\<close>

record Bridger =
  Protocol :: string
  GetChannelName :: "string \<Rightarrow> string"
  GetChannel :: "string \<Rightarrow> error + ChannelInfo"

text \<open>
  Modelled from the spec: the \<open>User\<close> struct (defined in user.go, outside the files modelled here).
  It embeds the \<open>bridge.UserInfo\<close> and the connection, and holds the credentials of PASS
  (\<open>None\<close> is the nil slice), the set of channels it belongs to and the bridge \<open>br\<close>
  (\<open>None\<close> is nil). Of the connection the model keeps the host it resolves to, whether it
  has been closed, the messages handed to \<open>Encode\<close>, oldest first, and the error that
  \<open>Encode\<close> returns.
\<close>

record irc_User = UserInfo +
  Pass :: "string list option"
  u_channels :: "cref list"
  br :: "Bridger option"
  conn_host :: string
  closed :: bool
  encoded :: "irc_Message list"
  encode_err :: "error option"

text \<open>
  Modelled from the spec: a channel (defined in channel.go, outside the files modelled here), with
  its backend id, its display name, the service, the modes and the members.
\<close>

record channel =
  ch_id :: string
  ch_name :: string
  ch_service :: string
  ch_modes :: "string \<rightharpoonup> bool"
  ch_members :: "uref list"

record ServerConfig =
  Name :: string
  Version :: string
  Motd :: "string list"
  InviteOnly :: bool
  MaxNickLen :: int
  DiscardEmpty :: bool

text \<open>
  The server: its fields \<open>config\<close>, \<open>u\<close>, \<open>users\<close> and \<open>channels\<close>, the two stores, the next
  free channel address, and the lines written by \<open>logger.Errorf\<close>.
\<close>

record server =
  config :: ServerConfig
  s_u :: "uref option"
  users :: "string \<rightharpoonup> uref"
  channels :: "string \<rightharpoonup> cref"
  user_store :: "uref \<Rightarrow> irc_User"
  channel_store :: "cref \<Rightarrow> channel"
  next_channel :: cref
  logged :: "string list"

text \<open>
  What the server calls outside this file: \<open>strings.ToLower\<close>, the texts of the welcome
  burst (\<open>fmt.Sprintf\<close> on the prefix, the creation time and the debug level), \<open>CmdMotd\<close>
  and \<open>login\<close> (with the user, the credentials and the service).
\<close>

record senv =
  ToLower :: "string \<Rightarrow> string"
  welcome_text :: "server \<Rightarrow> uref \<Rightarrow> string \<Rightarrow> string"
  CmdMotd :: "server \<Rightarrow> uref \<Rightarrow> server \<times> error option"
  login :: "uref \<Rightarrow> string list \<Rightarrow> string \<Rightarrow> server \<Rightarrow> server"

text \<open>\<open>ID\<close> normalizes a name to be used as a unique identifier for comparison.\<close>

definition ID :: "senv \<Rightarrow> string \<Rightarrow> string" where
  "ID se s = ToLower se s"

definition error_string :: "error \<Rightarrow> string" where
  "error_string e = (case e of ErrHandshakeFailed \<Rightarrow> ''handshake failed'' | Err m \<Rightarrow> m)"

subsection \<open>Users\<close>

definition upd_user :: "uref \<Rightarrow> (irc_User \<Rightarrow> irc_User) \<Rightarrow> server \<Rightarrow> server" where
  "upd_user u f s = s\<lparr>user_store := (user_store s)(u := f (user_store s u))\<rparr>"

text \<open>Modelled from the spec: \<open>User.ID\<close>, the normalized nick, which keys \<open>users\<close>.\<close>

definition user_ID :: "senv \<Rightarrow> server \<Rightarrow> uref \<Rightarrow> string" where
  "user_ID se s u = ID se (Nick (user_store s u))"

text \<open>Modelled from the spec: \<open>User.Prefix\<close>, made of the nick, the user name and the host.\<close>

definition user_Prefix :: "server \<Rightarrow> uref \<Rightarrow> irc_Prefix" where
  "user_Prefix s u =
     \<lparr>PName = Nick (user_store s u), PUser = User (user_store s u), PHost = Host (user_store s u)\<rparr>"

text \<open>
  Modelled from the spec: \<open>User.Encode\<close>, the outbound encoding of messages on the user's
  connection, and \<open>User.Close\<close>, which closes the connection.
\<close>

definition Encode :: "uref \<Rightarrow> irc_Message list \<Rightarrow> server \<Rightarrow> server \<times> error option" where
  "Encode u msgs s =
     (upd_user u (\<lambda>usr. usr\<lparr>encoded := encoded usr @ msgs\<rparr>) s, encode_err (user_store s u))"

definition Close :: "uref \<Rightarrow> server \<Rightarrow> server" where
  "Close u s = upd_user u (\<lambda>usr. usr\<lparr>closed := True\<rparr>) s"

text \<open>
  Modelled from the spec: \<open>User.VisibleTo\<close>, every other user who shares at least one
  channel with the user.
\<close>

definition VisibleTo :: "server \<Rightarrow> uref \<Rightarrow> uref list" where
  "VisibleTo s u =
     remdups (filter (\<lambda>other. other \<noteq> u)
                (concat (map (\<lambda>ch. ch_members (channel_store s ch)) (u_channels (user_store s u)))))"

definition server_Prefix :: "server \<Rightarrow> irc_Prefix" where
  "server_Prefix s = \<lparr>PName = Name (config s), PUser = [], PHost = []\<rparr>"

definition EncodeMessage ::
  "server \<Rightarrow> uref \<Rightarrow> string \<Rightarrow> string list \<Rightarrow> string \<Rightarrow> server \<times> error option" where
  "EncodeMessage s u cmd params trailing =
     Encode u [\<lparr>Prefix = Some (server_Prefix s), Command = cmd, Params = params,
                Trailing = trailing\<rparr>] s"

text \<open>
  The slice expression \<open>nick[:MaxNickLen]\<close> under its guard \<open>len(nick) > MaxNickLen\<close>, as
  \<open>RenameUser\<close> and \<open>handshake\<close> write it: it panics when the bound is negative.
\<close>

definition truncate_nick :: "int \<Rightarrow> string \<Rightarrow> panic + string" where
  "truncate_nick maxlen nick =
     (if int (length nick) > maxlen
      then (if maxlen < 0 then Inl SliceBounds else Inr (take (nat maxlen) nick))
      else Inr nick)"

fun encode_all :: "uref list \<Rightarrow> irc_Message \<Rightarrow> server \<Rightarrow> server" where
  "encode_all [] msg s = s"
| "encode_all (other # others) msg s = encode_all others msg (fst (Encode other [msg] s))"

text \<open>
  The statements of \<open>RenameUser\<close> between \<open>s.Lock()\<close> and \<open>s.Unlock()\<close>: the check for a
  collision and the re-keying, which are one step under the lock. The result is the prefix
  that the user had, or \<open>None\<close> when the name is in use.
\<close>

definition RenameUser_locked ::
  "senv \<Rightarrow> server \<Rightarrow> uref \<Rightarrow> string \<Rightarrow> server \<times> irc_Prefix option" where
  "RenameUser_locked se s u newNick =
     (if users s (ID se newNick) \<noteq> None then (s, None)
      else (let s1 = s\<lparr>users := (users s)(user_ID se s u := None)\<rparr>;
                oldPrefix = user_Prefix s1 u;
                s2 = upd_user u (\<lambda>usr. usr\<lparr>Nick := newNick\<rparr>) s1;
                s3 = s2\<lparr>users := (users s2)(user_ID se s2 u \<mapsto> u)\<rparr>
            in (s3, Some oldPrefix)))"

definition RenameUser :: "senv \<Rightarrow> server \<Rightarrow> uref \<Rightarrow> string \<Rightarrow> panic + (server \<times> bool)" where
  "RenameUser se s u newNick0 =
     (case truncate_nick (MaxNickLen (config s)) newNick0 of
        Inl p \<Rightarrow> Inl p
      | Inr newNick \<Rightarrow>
          (case RenameUser_locked se s u newNick of
             (s', None) \<Rightarrow>
               Inr (fst (EncodeMessage s' u irc_ERR_NICKNAMEINUSE [newNick]
                           ''Nickname is already in use''), False)
           | (s3, Some oldPrefix) \<Rightarrow>
               (let changeMsg = \<lparr>Prefix = Some oldPrefix, Command = irc_NICK,
                                  Params = [newNick], Trailing = []\<rparr>;
                    s4 = fst (Encode u [changeMsg] s3)
                in Inr (encode_all (VisibleTo s4 u) changeMsg s4, True))))"

definition add :: "senv \<Rightarrow> server \<Rightarrow> uref \<Rightarrow> server \<times> bool" where
  "add se s u =
     (let id = user_ID se s u
      in if users s id \<noteq> None then (s, False)
         else (s\<lparr>users := (users s)(id \<mapsto> u)\<rparr>, True))"

subsection \<open>Channels\<close>

text \<open>
  Modelled from the spec: the constructor \<open>NewChannel\<close>, which makes a fresh channel with
  the given id, name, service and modes and no member.
\<close>

definition NewChannel ::
  "server \<Rightarrow> string \<Rightarrow> string \<Rightarrow> string \<Rightarrow> (string \<rightharpoonup> bool) \<Rightarrow> server \<times> cref" where
  "NewChannel s channelId name service modes =
     (s\<lparr>channel_store := (channel_store s)
           (next_channel s := \<lparr>ch_id = channelId, ch_name = name, ch_service = service,
                               ch_modes = modes, ch_members = []\<rparr>),
        next_channel := next_channel s + 1\<rparr>,
      next_channel s)"

definition HasChannel :: "server \<Rightarrow> string \<Rightarrow> cref option" where
  "HasChannel s channelID = channels s channelID"

definition Channel :: "server \<Rightarrow> string \<Rightarrow> panic + (server \<times> cref)" where
  "Channel s channelID =
     (case channels s channelID of
        Some ch \<Rightarrow> Inr (s, ch)
      | None \<Rightarrow>
          (case s_u s of
             None \<Rightarrow> Inl NilDereference
           | Some u \<Rightarrow>
               (case br (user_store s u) of
                  None \<Rightarrow> Inl NilDereference
                | Some b \<Rightarrow>
                    (let service = Protocol b;
                         name = GetChannelName b channelID;
                         (s1, info) =
                           (case GetChannel b channelID of
                              Inl err \<Rightarrow>
                                ((if \<not> HasPrefix channelID ''&''
                                  then s\<lparr>logged := logged s @
                                          [''didn't find channel '' @ channelID @ '': ''
                                           @ error_string err]\<rparr>
                                  else s), empty_ChannelInfo)
                            | Inr i \<Rightarrow> (s, i));
                         modes = [''p'' \<mapsto> Private info];
                         (s2, ch) = NewChannel s1 channelID name service modes
                     in Inr (s2\<lparr>channels := ((channels s2)(channelID \<mapsto> ch))(name \<mapsto> ch)\<rparr>, ch)))))"

text \<open>\<open>ch.String()\<close> is the display name and \<open>ch.ID()\<close> the backend id of the channel.\<close>

definition UnlinkChannel :: "server \<Rightarrow> cref \<Rightarrow> server" where
  "UnlinkChannel s ch =
     (let chStored = channels s (ch_name (channel_store s ch));
          r = (chStored = Some ch)
      in if r
         then s\<lparr>channels := ((channels s)(ch_name (channel_store s ch) := None))
                               (ch_id (channel_store s ch) := None)\<rparr>
         else s)"

subsection \<open>The handshake\<close>

definition welcome_msg :: "senv \<Rightarrow> server \<Rightarrow> uref \<Rightarrow> string \<Rightarrow> irc_Message" where
  "welcome_msg se s u cmd =
     \<lparr>Prefix = Some (server_Prefix s), Command = cmd, Params = [Nick (user_store s u)],
      Trailing = welcome_text se s u cmd\<rparr>"

text \<open>The method \<open>welcome\<close> of the server.\<close>

definition server_welcome :: "senv \<Rightarrow> server \<Rightarrow> uref \<Rightarrow> server \<times> error option" where
  "server_welcome se s u =
     (case Encode u [welcome_msg se s u irc_RPL_WELCOME, welcome_msg se s u irc_RPL_YOURHOST,
                     welcome_msg se s u irc_RPL_CREATED, welcome_msg se s u irc_RPL_MYINFO,
                     welcome_msg se s u irc_RPL_LUSERCLIENT] s of
        (s1, Some err) \<Rightarrow> (s1, Some err)
      | (s1, None) \<Rightarrow> CmdMotd se s1 u)"

text \<open>
  What one turn of the loop of \<open>handshake\<close> does with a message, after the count: it goes
  on with the loop (\<open>continue\<close>), or the handshake returns.
\<close>

datatype step = Continue | Return "error option"

definition handshake_msg ::
  "senv \<Rightarrow> server \<Rightarrow> uref \<Rightarrow> irc_Message option \<Rightarrow> panic + (server \<times> step)" where
  "handshake_msg se s u m =
     (case m of
        None \<Rightarrow> Inr (s, Continue)
      | Some msg0 \<Rightarrow>
          (let msg = (if (Command msg0 = irc_NICK \<or> Command msg0 = irc_PASS) \<and> Trailing msg0 \<noteq> []
                      then msg0\<lparr>Params := Params msg0 @ [Trailing msg0]\<rparr> else msg0)
           in if length (Params msg) < 1 then Inr (s, Continue)
              else
                (let s1 =
                       (if Command msg = irc_NICK
                        then upd_user u (\<lambda>usr. usr\<lparr>Nick := Params msg ! 0\<rparr>) s
                        else if Command msg = irc_USER
                        then upd_user u (\<lambda>usr. usr\<lparr>User := Params msg ! 0, Real := Trailing msg\<rparr>) s
                        else if Command msg = irc_PASS
                        then upd_user u (\<lambda>usr. usr\<lparr>Pass := Some (Params msg)\<rparr>) s
                        else if Command msg = irc_JOIN
                        then fst (EncodeMessage s u irc_ERR_NOTREGISTERED [''*'']
                                    ''Please register first'')
                        else s)
                 in if Nick (user_store s1 u) = [] \<or> User (user_store s1 u) = []
                    then Inr (s1, Continue)
                    else
                      (case truncate_nick (MaxNickLen (config s1)) (Nick (user_store s1 u)) of
                         Inl p \<Rightarrow> Inl p
                       | Inr nick \<Rightarrow>
                           (case add se (upd_user u (\<lambda>usr. usr\<lparr>Nick := nick\<rparr>) s1) u of
                              (s3, False) \<Rightarrow>
                                Inr (fst (EncodeMessage s3 u irc_ERR_NICKNAMEINUSE
                                            [Nick (user_store s3 u)]
                                            ''Nickname is already in use''), Continue)
                            | (s3, True) \<Rightarrow>
                                (case server_welcome se (s3\<lparr>s_u := Some u\<rparr>) u of
                                   (s5, err) \<Rightarrow>
                                     Inr ((case Pass (user_store s5 u) of
                                             None \<Rightarrow> s5
                                           | Some pass \<Rightarrow>
                                               if err = None
                                               then login se u pass
                                                      (if length pass = 1 then ''slack''
                                                       else ''mattermost'') s5
                                               else s5),
                                          Return err)))))))"

text \<open>
  The loop of \<open>handshake\<close> on the counter \<open>i\<close> and the messages that \<open>DecodeCh\<close> delivers,
  each within ten seconds of the turn before. When the list is used up no message arrives
  for ten seconds, and the timer of \<open>time.After\<close> fires.
\<close>

fun handshake_loop ::
  "senv \<Rightarrow> int \<Rightarrow> server \<Rightarrow> uref \<Rightarrow> irc_Message option list \<Rightarrow> panic + (server \<times> error option)" where
  "handshake_loop se i s u [] = Inr (s, Some ErrHandshakeFailed)"
| "handshake_loop se i s u (msg # msgs) =
     (if i - 1 = 0 then Inr (s, Some ErrHandshakeFailed)
      else (case handshake_msg se s u msg of
              Inl p \<Rightarrow> Inl p
            | Inr (s', Continue) \<Rightarrow> handshake_loop se (i - 1) s' u msgs
            | Inr (s', Return err) \<Rightarrow> Inr (s', err)))"

definition handshakeMsgTolerance :: int where
  "handshakeMsgTolerance = 20"

definition handshake ::
  "senv \<Rightarrow> server \<Rightarrow> uref \<Rightarrow> irc_Message option list \<Rightarrow> panic + (server \<times> error option)" where
  "handshake se s u msgs =
     handshake_loop se handshakeMsgTolerance
       (upd_user u (\<lambda>usr. usr\<lparr>Host := conn_host usr\<rparr>) s) u msgs"

text \<open>\<open>Connect\<close>; the command loop that it starts on success is not part of the model.\<close>

definition Connect ::
  "senv \<Rightarrow> server \<Rightarrow> uref \<Rightarrow> irc_Message option list \<Rightarrow> panic + (server \<times> error option)" where
  "Connect se s u msgs =
     (case handshake se s u msgs of
        Inl p \<Rightarrow> Inl p
      | Inr (s', Some err) \<Rightarrow> Inr (Close u s', Some err)
      | Inr (s', None) \<Rightarrow> Inr (s', None))"

section \<open>Notions of the statements\<close>

text \<open>
  The shape of the channel index: every entry holds an allocated channel under the
  channel's id or its name, and every channel that has an entry has both, the one under
  its id and the one under its name.
\<close>

definition dual_indexed :: "server \<Rightarrow> bool" where
  "dual_indexed s =
     (\<forall>k ch. channels s k = Some ch \<longrightarrow>
        ch < next_channel s
      \<and> (k = ch_id (channel_store s ch) \<or> k = ch_name (channel_store s ch))
      \<and> channels s (ch_id (channel_store s ch)) = Some ch
      \<and> channels s (ch_name (channel_store s ch)) = Some ch)"

text \<open>
  The handshake is still awaiting the identity after a list of messages: every one of
  them made the loop go on. The result is the state reached, and \<open>None\<close> when one of
  the messages made the handshake return.
\<close>

fun awaiting :: "senv \<Rightarrow> server \<Rightarrow> uref \<Rightarrow> irc_Message option list \<Rightarrow> server option" where
  "awaiting se s u [] = Some s"
| "awaiting se s u (msg # msgs) =
     (case handshake_msg se s u msg of
        Inr (s', Continue) \<Rightarrow> awaiting se s' u msgs
      | _ \<Rightarrow> None)"

section \<open>Concrete inputs\<close>

definition ex_attachment :: Attachment where
  "ex_attachment =
     \<lparr>Pretext = [], A_Text = ''a\<newline>b\<newline>c\<newline>d\<newline>e\<newline>f\<newline>g\<newline>h''\<rparr>"

text \<open>The local account \<open>U1\<close>, another user \<open>U2\<close>, and a client that knows the two.\<close>

definition ex_me :: slack_User where
  "ex_me =
     \<lparr>U_ID = ''U1'', U_TeamID = ''T1'', U_Name = ''alice'', U_RealName = ''Alice'',
      U_Profile = \<lparr>P_FirstName = ''Alice'', P_LastName = ''A'', P_RealName = ''Alice A'',
                   P_DisplayName = ''ally''\<rparr>\<rparr>"

definition ex_bob :: slack_User where
  "ex_bob =
     \<lparr>U_ID = ''U2'', U_TeamID = ''T1'', U_Name = ''bob'', U_RealName = ''Bob'',
      U_Profile = \<lparr>P_FirstName = ''Bob'', P_LastName = ''B'', P_RealName = ''Bob B'',
                   P_DisplayName = ''bobby''\<rparr>\<rparr>"

definition ex_lookup :: "string \<Rightarrow> error + slack_User" where
  "ex_lookup userID =
     (if userID = ''U1'' then Inr ex_me
      else if userID = ''U2'' then Inr ex_bob
      else Inl (Err ''user_not_found''))"

definition ex_bot :: "string \<Rightarrow> error + string" where
  "ex_bot botID = Inl (Err ''bot_not_found'')"

definition ex_members :: "string \<Rightarrow> string list" where
  "ex_members channelID = [''U1'', ''U2'']"

definition ex_post :: "string \<Rightarrow> string \<Rightarrow> error + string" where
  "ex_post channelID text = Inr ''100''"

definition ex_flags :: "string \<Rightarrow> bool" where
  "ex_flags key = False"

definition ex_valid :: "string \<Rightarrow> bool" where
  "ex_valid nick = True"

definition ex_text :: "string \<Rightarrow> string" where
  "ex_text t = t"

definition ex_empty :: "MessageEvent \<Rightarrow> string" where
  "ex_empty rmsg = ''Empty''"

definition ex_quiet :: "(string \<rightharpoonup> string) \<Rightarrow> (string \<rightharpoonup> string)" where
  "ex_quiet m = m"

text \<open>
  On ASCII strings, which the inputs below are, \<open>strings.ToUpper\<close> is this function: it
  raises the letters \<open>a\<close> to \<open>z\<close>.
\<close>

definition ex_upper_char :: "char \<Rightarrow> char" where
  "ex_upper_char c =
     (if CHR ''a'' \<le> c \<and> c \<le> CHR ''z'' then char_of (of_char c - (32::nat)) else c)"

definition ex_ToUpper :: "string \<Rightarrow> string" where
  "ex_ToUpper s = map ex_upper_char s"

definition ex_env :: env where
  "ex_env =
     \<lparr>GetUserInfo = ex_lookup, GetBotInfo = ex_bot, GetUsersInConversation = ex_members,
      PostMessage = ex_post, GetBool = ex_flags, formatTS = ex_text,
      cleanupMessage = ex_text, isValidNick = ex_valid, sprintfEmpty = ex_empty,
      ToUpper = ex_ToUpper, during_sleep = ex_quiet\<rparr>"

definition ex_slack :: Slack where
  "ex_slack =
     \<lparr>sinfo_User_ID = ''U1'', sinfo_User_Name = ''alice'', sinfo_Team_ID = ''T1'',
      susers = Map.empty, connected = True, msgLast = Map.empty, eventChan = [],
      slept = []\<rparr>"

text \<open>
  A client whose user lookups all fail, and a bot message without a user name (the
  lookup of bots fails in \<open>ex_env\<close>).
\<close>

definition ex_no_lookup :: "string \<Rightarrow> error + slack_User" where
  "ex_no_lookup userID = Inl (Err ''ratelimited'')"

definition ex_env_offline :: env where
  "ex_env_offline = ex_env\<lparr>GetUserInfo := ex_no_lookup\<rparr>"

definition ex_bot_message :: MessageEvent where
  "ex_bot_message =
     \<lparr>E_SubType = ''bot_message'', E_User = [], E_Channel = ''CH1'', E_Timestamp = ''400'',
      E_Text = ''build passed'', E_DeletedTimestamp = [], E_ThreadTimestamp = [],
      E_BotID = ''B1'', E_Username = [], E_Attachments = [], E_Files = [],
      E_SubMessage = None\<rparr>"

text \<open>The bridge after the send path has recorded the id \<open>200\<close> for the channel \<open>CH1\<close>.\<close>

definition ex_slack_sent :: Slack where
  "ex_slack_sent = ex_slack\<lparr>msgLast := [''CH1'' \<mapsto> ''200'']\<rparr>"

text \<open>A message of the local account on \<open>CH1\<close> with the given id and text.\<close>

definition ex_own :: "string \<Rightarrow> string \<Rightarrow> MessageEvent" where
  "ex_own ts text =
     \<lparr>E_SubType = [], E_User = ''U1'', E_Channel = ''CH1'', E_Timestamp = ts, E_Text = text,
      E_DeletedTimestamp = [], E_ThreadTimestamp = [], E_BotID = [], E_Username = [],
      E_Attachments = [], E_Files = [], E_SubMessage = None\<rparr>"

text \<open>The same message in the direct conversation \<open>DM1\<close> of the two users.\<close>

definition ex_own_direct :: "string \<Rightarrow> string \<Rightarrow> MessageEvent" where
  "ex_own_direct ts text = (ex_own ts text)\<lparr>E_Channel := ''DM1''\<rparr>"

text \<open>How the local account and the other user appear to IRC.\<close>

definition ex_ghost_me :: UserInfo where
  "ex_ghost_me =
     \<lparr>Nick = ''alice'', User = ''U1'', Real = ''Alice'', Host = ''host'', Roles = [],
      DisplayName = ''ally'', Ghost = True, Me = True, Username = ''Alice A'',
      FirstName = ''Alice'', LastName = ''A'', TeamID = ''T1''\<rparr>"

definition ex_ghost_bob :: UserInfo where
  "ex_ghost_bob =
     \<lparr>Nick = ''bob'', User = ''U2'', Real = ''Bob'', Host = ''host'', Roles = [],
      DisplayName = ''bobby'', Ghost = True, Me = False, Username = ''Bob B'',
      FirstName = ''Bob'', LastName = ''B'', TeamID = ''T1''\<rparr>"

text \<open>The bridge after \<open>MsgChannel\<close> has posted to \<open>ch1\<close> and recorded the id \<open>100\<close>.\<close>

definition ex_slack_acked :: Slack where
  "ex_slack_acked = ex_slack\<lparr>msgLast := [''CH1'' \<mapsto> ''100'']\<rparr>"

text \<open>
  A bridge that reports the name \<open>#general\<close> for the two ids \<open>CH1\<close> and \<open>CH2\<close>, three users
  with it, and a server that holds the three; in \<open>ex_server_joined\<close> the first two are the
  members of the channel \<open>CH1\<close> and the first is the one member of the channel \<open>CH3\<close>.
\<close>

definition ex_channel_name :: "string \<Rightarrow> string" where
  "ex_channel_name channelID =
     (if channelID = ''CH1'' \<or> channelID = ''CH2'' then ''#general'' else channelID)"

definition ex_channel_info :: "string \<Rightarrow> error + ChannelInfo" where
  "ex_channel_info channelID = Inl (Err ''channel not found'')"

definition ex_bridge :: Bridger where
  "ex_bridge = \<lparr>Protocol = ''slack'', GetChannelName = ex_channel_name, GetChannel = ex_channel_info\<rparr>"

definition ex_user :: "string \<Rightarrow> cref list \<Rightarrow> irc_User" where
  "ex_user nick chs =
     \<lparr>Nick = nick, User = nick, Real = nick, Host = ''localhost'', Roles = [],
      DisplayName = [], Ghost = False, Me = False, Username = [], FirstName = [],
      LastName = [], TeamID = [], Pass = None, u_channels = chs, br = Some ex_bridge,
      conn_host = ''localhost'', closed = False, encoded = [],
      encode_err = None\<rparr>"

definition ex_config :: ServerConfig where
  "ex_config =
     \<lparr>Name = ''matterircd'', Version = ''go-irckit'', Motd = [], InviteOnly = False,
      MaxNickLen = 32, DiscardEmpty = False\<rparr>"

definition ex_no_channel :: channel where
  "ex_no_channel = \<lparr>ch_id = [], ch_name = [], ch_service = [], ch_modes = Map.empty, ch_members = []\<rparr>"

definition ex_server :: server where
  "ex_server =
     \<lparr>config = ex_config, s_u = Some 0,
      users = [''alice'' \<mapsto> 0, ''bob'' \<mapsto> 1, ''carol'' \<mapsto> 2],
      channels = Map.empty,
      user_store = (\<lambda>r. ex_user [] [])(0 := ex_user ''alice'' [], 1 := ex_user ''bob'' [],
                                        2 := ex_user ''carol'' []),
      channel_store = (\<lambda>r. ex_no_channel), next_channel = 0, logged = []\<rparr>"

definition ex_general :: channel where
  "ex_general =
     \<lparr>ch_id = ''CH1'', ch_name = ''#general'', ch_service = ''slack'',
      ch_modes = [''p'' \<mapsto> False], ch_members = [0, 1]\<rparr>"

definition ex_random :: channel where
  "ex_random =
     \<lparr>ch_id = ''CH3'', ch_name = ''#random'', ch_service = ''slack'',
      ch_modes = [''p'' \<mapsto> False], ch_members = [0]\<rparr>"

definition ex_server_joined :: server where
  "ex_server_joined =
     \<lparr>config = ex_config, s_u = Some 0,
      users = [''alice'' \<mapsto> 0, ''bob'' \<mapsto> 1, ''carol'' \<mapsto> 2],
      channels = [''CH1'' \<mapsto> 0, ''#general'' \<mapsto> 0, ''CH3'' \<mapsto> 1, ''#random'' \<mapsto> 1],
      user_store = (\<lambda>r. ex_user [] [])(0 := ex_user ''alice'' [0, 1], 1 := ex_user ''bob'' [0],
                                        2 := ex_user ''carol'' []),
      channel_store = (\<lambda>r. ex_no_channel)(0 := ex_general, 1 := ex_random),
      next_channel = 2, logged = []\<rparr>"


text \<open>The results of \<open>Channel("CH1")\<close> and then \<open>Channel("CH2")\<close> on \<open>ex_server\<close>.\<close>

definition ex_one_channel :: "server \<times> cref" where
  "ex_one_channel = projr (Channel ex_server ''CH1'')"

definition ex_two_channels :: "server \<times> cref" where
  "ex_two_channels = projr (Channel (fst ex_one_channel) ''CH2'')"

text \<open>
  A new connection (the user at address 3 of \<open>ex_server\<close>, with no nick and no user name
  yet), the messages NICK and USER, and the state in which the connection has sent the
  nick \<open>dave\<close> only.
\<close>

definition ex_welcome_text :: "server \<Rightarrow> uref \<Rightarrow> string \<Rightarrow> string" where
  "ex_welcome_text s u cmd = ''Welcome!''"

definition ex_motd :: "server \<Rightarrow> uref \<Rightarrow> server \<times> error option" where
  "ex_motd s u = (s, None)"

definition ex_login :: "uref \<Rightarrow> string list \<Rightarrow> string \<Rightarrow> server \<Rightarrow> server" where
  "ex_login u pass service s = s"

text \<open>
  On ASCII strings, which the nicks below are, \<open>strings.ToLower\<close> is this function: it
  lowers the letters \<open>A\<close> to \<open>Z\<close>.
\<close>

definition ex_lower_char :: "char \<Rightarrow> char" where
  "ex_lower_char c =
     (if CHR ''A'' \<le> c \<and> c \<le> CHR ''Z'' then char_of (of_char c + (32::nat)) else c)"

definition ex_ToLower :: "string \<Rightarrow> string" where
  "ex_ToLower s = map ex_lower_char s"

definition ex_senv :: senv where
  "ex_senv =
     \<lparr>ToLower = ex_ToLower, welcome_text = ex_welcome_text, CmdMotd = ex_motd,
      login = ex_login\<rparr>"

definition ex_NICK :: "string \<Rightarrow> irc_Message option" where
  "ex_NICK nick = Some \<lparr>Prefix = None, Command = ''NICK'', Params = [nick], Trailing = []\<rparr>"

definition ex_USER :: "string \<Rightarrow> irc_Message option" where
  "ex_USER name =
     Some \<lparr>Prefix = None, Command = ''USER'', Params = [name, ''0'', ''*''], Trailing = name\<rparr>"

definition ex_dave_waiting :: server where
  "ex_dave_waiting =
     upd_user 3 (\<lambda>usr. usr\<lparr>Nick := ''dave''\<rparr>)
       (upd_user 3 (\<lambda>usr. usr\<lparr>Host := conn_host usr\<rparr>) ex_server)"

section \<open>Properties of the Slack bridge\<close>

subsection \<open>Attachment bodies\<close>

lemma attach_rows_long:
  "i \<le> 5 \<Longrightarrow> length rows > 5 - i \<Longrightarrow>
   attach_rows i rows = map (\<lambda>row. ''> '' @ row) (take (6 - i) rows) @ [''> ...'']"
proof (induction rows arbitrary: i)
  case Nil
  then show ?case by simp
next
  case (Cons row rows)
  show ?case
  proof (cases "i > 4")
    case True
    with Cons.prems have "i = 5" by simp
    then show ?thesis by simp
  next
    case False
    then have a: "i + 1 \<le> 5" by simp
    from False Cons.prems have b: "length rows > 5 - (i + 1)" by simp
    from False have c: "6 - i = Suc (6 - (i + 1))" by simp
    show ?thesis using False Cons.IH [OF a b]
      by (simp only: attach_rows.simps c take_Suc_Cons list.map append_Cons if_False)
  qed
qed

text \<open>
  C8: the loop over the rows of an attachment body keeps six rows, so six is the line cap.
  When the body text of an attachment has more than six lines, the lines rendered for the
  body are the first six, each quoted, followed by the one marker \<open>> ...\<close>: exactly
  \<open>6 + 1\<close> lines, the last being the marker. They are what the attachment adds to the
  lines of the message, after its pretext.
\<close>

theorem attachment_body_cap:
  assumes "length (Split_nl (A_Text attach)) > 6"
  shows "attach_rows 0 (Split_nl (A_Text attach))
           = map (\<lambda>row. ''> '' @ row) (take 6 (Split_nl (A_Text attach))) @ [''> ...'']
       \<and> length (attach_rows 0 (Split_nl (A_Text attach))) = 6 + 1
       \<and> last (attach_rows 0 (Split_nl (A_Text attach))) = ''> ...''
       \<and> attach_loop [attach] (msgs, msghandled)
           = ((msgs @ (if Pretext attach \<noteq> [] then Split_nl (Pretext attach) else []))
                @ attach_rows 0 (Split_nl (A_Text attach)), True)"
proof -
  let ?rows = "Split_nl (A_Text attach)"
  have r: "attach_rows 0 ?rows = map (\<lambda>row. ''> '' @ row) (take 6 ?rows) @ [''> ...'']"
    using attach_rows_long [of 0 ?rows] assms by simp
  have ne: "A_Text attach \<noteq> []"
    using assms by auto
  have l: "attach_loop [attach] (msgs, msghandled)
           = ((msgs @ (if Pretext attach \<noteq> [] then Split_nl (Pretext attach) else []))
                @ attach_rows 0 ?rows, True)"
    using ne by simp
  from r assms have len: "length (attach_rows 0 ?rows) = 6 + 1" by simp
  from r have lst: "last (attach_rows 0 ?rows) = ''> ...''" by simp
  from r len lst l show ?thesis by blast
qed

theorem attachment_body_cap_witness:
  "length (Split_nl (A_Text ex_attachment)) > 6
   \<and> attach_rows 0 (Split_nl (A_Text ex_attachment))
       = [''> a'', ''> b'', ''> c'', ''> d'', ''> e'', ''> f'', ''> ...'']"
proof -
  have h: "length (Split_nl (A_Text ex_attachment)) > 6"
    by (simp add: ex_attachment_def)
  have s: "Split_nl (A_Text ex_attachment) = [''a'', ''b'', ''c'', ''d'', ''e'', ''f'', ''g'', ''h'']"
    by (simp add: ex_attachment_def)
  from attachment_body_cap [OF h, of "[]" False] h s show ?thesis by simp
qed

subsection \<open>Users that cannot be looked up\<close>

text \<open>
  \<open>createUser\<close> applied to nil returns the zero \<open>UserInfo\<close>. So where the result of a
  failed user lookup is handed to \<open>createUser\<close>, the zero \<open>UserInfo\<close> comes out:
  \<open>getSlackUser\<close> returns nil and \<open>GetUser\<close> the zero \<open>UserInfo\<close>, with which the
  handlers of the membership events send their event; \<open>GetMe\<close> and the receiver of a
  direct message are the zero \<open>UserInfo\<close> when their lookup fails. The handlers of
  reactions and of messages return under their guard on the error of the lookup.
\<close>

lemma failed_lookup_identity:
  "createUser env s None = empty_UserInfo
   \<and> (susers s userID = None \<and> GetUserInfo env userID = Inl err \<longrightarrow>
        getSlackUser env s userID = (s, None)
      \<and> GetUser env s userID = (s, empty_UserInfo)
      \<and> handleMemberLeftChannel env s userID channel
          = send \<lparr>Type = ''channel_remove'', Data = ChannelRemoveEvent [empty_UserInfo] channel\<rparr> s
      \<and> handleMemberJoinedChannel env s userID channel []
          = send \<lparr>Type = ''channel_add'', Data = ChannelAddEvent [empty_UserInfo] None channel\<rparr> s)
   \<and> (GetUserInfo env (sinfo_User_ID s) = Inl err \<longrightarrow> GetMe env s = empty_UserInfo)
   \<and> (GetUserInfo env userID = Inl err \<and> userID \<noteq> User (GetMe env s) \<longrightarrow>
        receiver_loop env s [userID] receiver = empty_UserInfo)
   \<and> (GetUserInfo env userID = Inl err \<longrightarrow> handleActionMisc env s userID channel msg = s)
   \<and> (getSlackUserFromMessage env s (mark_deleted env rmsg) = Inr (Inl err) \<longrightarrow>
        forward env s rmsg = Inr s)"
proof -
  have c: "createUser env s None = empty_UserInfo"
    by (simp add: createUser_def)
  have g: "getSlackUser env s userID = (s, None)"
    if "susers s userID = None" "GetUserInfo env userID = Inl err"
    using that by (simp add: getSlackUser_def)
  have u: "GetUser env s userID = (s, empty_UserInfo)"
    if "susers s userID = None" "GetUserInfo env userID = Inl err"
    using g [OF that] c by (simp add: GetUser_def)
  have l: "handleMemberLeftChannel env s userID channel
          = send \<lparr>Type = ''channel_remove'', Data = ChannelRemoveEvent [empty_UserInfo] channel\<rparr> s"
    if "susers s userID = None" "GetUserInfo env userID = Inl err"
    using u [OF that] by (simp add: handleMemberLeftChannel_def)
  have j: "handleMemberJoinedChannel env s userID channel []
          = send \<lparr>Type = ''channel_add'', Data = ChannelAddEvent [empty_UserInfo] None channel\<rparr> s"
    if "susers s userID = None" "GetUserInfo env userID = Inl err"
    using u [OF that] by (simp add: handleMemberJoinedChannel_def)
  have m: "GetMe env s = empty_UserInfo" if "GetUserInfo env (sinfo_User_ID s) = Inl err"
    using that c by (simp add: GetMe_def)
  have r: "receiver_loop env s [userID] receiver = empty_UserInfo"
    if "GetUserInfo env userID = Inl err" "userID \<noteq> User (GetMe env s)"
    using that c by simp
  have a: "handleActionMisc env s userID channel msg = s" if "GetUserInfo env userID = Inl err"
    using that by (simp add: handleActionMisc_def)
  have f: "forward env s rmsg = Inr s"
    if "getSlackUserFromMessage env s (mark_deleted env rmsg) = Inr (Inl err)"
    using that by (simp add: forward_def)
  from c g u l j m r a f show ?thesis by blast
qed

text \<open>
  C10: a bot message that carries no user name, and whose bot cannot be looked up.
  \<open>createUser\<close> applied to nil is the zero \<open>UserInfo\<close>; but the lookup of the sender does
  not end in an identity. After \<open>GetBotInfo\<close> has failed, \<open>getSlackUserFromMessage\<close> sets
  the name \<open>bot\<close> and then, outside the guard on the error, reads \<open>bot.Name\<close> of the nil
  bot: the lookup, the handler of the message and the event loop end in a nil dereference,
  and no event is sent.
\<close>

theorem bot_lookup_nil_dereference:
  "createUser ex_env ex_slack None = empty_UserInfo
   \<and> E_SubType ex_bot_message = ''bot_message''
   \<and> E_Username ex_bot_message = []
   \<and> GetBotInfo ex_env (E_BotID ex_bot_message) = Inl (Err ''bot_not_found'')
   \<and> getSlackUserFromMessage ex_env ex_slack ex_bot_message = Inl NilDereference
   \<and> handleSlackActionPost ex_env ex_slack ex_bot_message = Inl NilDereference
   \<and> handleSlack ex_env ex_slack [MessageEv ex_bot_message] = Inl NilDereference"
  by (simp add: handleSlackActionPost_def own_echo_def forward_def mark_deleted_def
      getSlackUserFromMessage_def createUser_def map_get_def Let_def
      ex_slack_def ex_env_def ex_bot_def ex_bot_message_def)

subsection \<open>The wait of the own-message check\<close>

text \<open>
  The recorded id \<open>200\<close> is not earlier than the id \<open>100\<close> of the event, and the handler
  does not sleep; it is earlier than the id \<open>300\<close>, and the handler sleeps.
\<close>

theorem own_echo_wait_counterexample:
  "E_User (ex_own ''100'' ''hi'') = sinfo_User_ID ex_slack_sent
   \<and> \<not> map_get (msgLast ex_slack_sent) (E_Channel (ex_own ''100'' ''hi'')) < E_Timestamp (ex_own ''100'' ''hi'')
   \<and> slept (fst (own_echo ex_env ex_slack_sent (ex_own ''100'' ''hi''))) = []
   \<and> E_User (ex_own ''300'' ''hi'') = sinfo_User_ID ex_slack_sent
   \<and> map_get (msgLast ex_slack_sent) (E_Channel (ex_own ''300'' ''hi'')) < E_Timestamp (ex_own ''300'' ''hi'')
   \<and> slept (fst (own_echo ex_env ex_slack_sent (ex_own ''300'' ''hi''))) = [100]"
  by (simp add: own_echo_def ex_own_def ex_slack_sent_def ex_slack_def map_get_def time_Sleep_def
      Let_def ex_env_def ex_quiet_def)

text \<open>
  C5, amended: in the check of the local account's own message the handler sleeps for 100
  milliseconds and reads the recorded last-sent id of the channel once more exactly when
  the recorded id is earlier than the timestamp of the event, in the bytewise order of
  strings (an absent record reads as the empty string, which is earlier than every other
  one). The id read after the sleep decides. When the recorded id is not earlier, the
  handler does not sleep and decides on the id it read first.
\<close>

theorem own_echo_wait:
  assumes "E_User rmsg = sinfo_User_ID s"
  shows "(map_get (msgLast s) (E_Channel rmsg) < E_Timestamp rmsg \<longrightarrow>
            own_echo env s rmsg
              = (time_Sleep env 100 s,
                 map_get (during_sleep env (msgLast s)) (E_Channel rmsg) = E_Timestamp rmsg)
          \<and> slept (time_Sleep env 100 s) = slept s @ [100])
       \<and> (\<not> map_get (msgLast s) (E_Channel rmsg) < E_Timestamp rmsg \<longrightarrow>
            own_echo env s rmsg = (s, map_get (msgLast s) (E_Channel rmsg) = E_Timestamp rmsg))"
  using assms by (simp add: own_echo_def time_Sleep_def Let_def)

theorem own_echo_wait_witness:
  "E_User (ex_own ''300'' ''hi'') = sinfo_User_ID ex_slack_sent
   \<and> map_get (msgLast ex_slack_sent) (E_Channel (ex_own ''300'' ''hi'')) < E_Timestamp (ex_own ''300'' ''hi'')
   \<and> own_echo ex_env ex_slack_sent (ex_own ''300'' ''hi'') = (time_Sleep ex_env 100 ex_slack_sent, False)
   \<and> \<not> map_get (msgLast ex_slack_sent) (E_Channel (ex_own ''200'' ''hi'')) < E_Timestamp (ex_own ''200'' ''hi'')
   \<and> own_echo ex_env ex_slack_sent (ex_own ''200'' ''hi'') = (ex_slack_sent, True)"
proof -
  have o: "E_User (ex_own ts ''hi'') = sinfo_User_ID ex_slack_sent" for ts
    by (simp add: ex_own_def ex_slack_sent_def ex_slack_def)
  have l: "map_get (msgLast ex_slack_sent) (E_Channel (ex_own ts ''hi'')) = ''200''" for ts
    by (simp add: ex_own_def ex_slack_sent_def map_get_def)
  have d: "map_get (during_sleep ex_env (msgLast ex_slack_sent)) (E_Channel (ex_own ts ''hi'')) = ''200''" for ts
    by (simp add: ex_own_def ex_slack_sent_def map_get_def ex_env_def ex_quiet_def)
  have t: "E_Timestamp (ex_own ts ''hi'') = ts" for ts
    by (simp add: ex_own_def)
  from own_echo_wait [OF o, of "''300''" ex_env] own_echo_wait [OF o, of "''200''" ex_env]
  show ?thesis
    by (simp add: o l d t)
qed

subsection \<open>Own messages\<close>

lemma attach_loop_handled:
  "(\<not> snd acc \<longrightarrow> fst acc = []) \<Longrightarrow>
   (\<not> snd (attach_loop as acc) \<longrightarrow> fst (attach_loop as acc) = [])"
proof (induction as arbitrary: acc)
  case Nil
  then show ?case by simp
next
  case (Cons attach rest)
  obtain msgs h where acc: "acc = (msgs, h)" by (cases acc)
  show ?case
    using Cons.prems by (simp add: acc Cons.IH)
qed

lemma file_loop_handled:
  "(\<not> snd acc \<longrightarrow> fst acc = []) \<Longrightarrow>
   (\<not> snd (file_loop fs acc) \<longrightarrow> fst (file_loop fs acc) = [])"
proof (induction fs arbitrary: acc)
  case Nil
  then show ?case by simp
next
  case (Cons f rest)
  obtain msgs h where acc: "acc = (msgs, h)" by (cases acc)
  show ?case
    by (simp add: acc Cons.IH)
qed

lemma render_handled:
  assumes "render env rmsg = Inr (msgs, h)" and "msgs \<noteq> []"
  shows "h"
proof -
  define r where "r = file_loop (E_Files rmsg)
             (attach_loop (E_Attachments rmsg)
                (if E_Text rmsg \<noteq> [] then (Split_nl (E_Text rmsg), True) else ([], False)))"
  have i: "\<not> snd r \<longrightarrow> fst r = []"
    unfolding r_def by (rule file_loop_handled, rule attach_loop_handled) simp
  obtain ms mh where p: "r = (ms, mh)" by (cases r)
  from assms i show ?thesis
    by (auto simp: render_def r_def [symmetric] p Let_def split: if_splits option.splits)
qed

lemma createUser_sinfo:
  "sinfo_User_ID s' = sinfo_User_ID s \<Longrightarrow> sinfo_Team_ID s' = sinfo_Team_ID s \<Longrightarrow>
   createUser env s' su = createUser env s su"
  by (cases su) (simp_all add: createUser_def)

lemma receiver_loop_sinfo:
  "sinfo_User_ID s' = sinfo_User_ID s \<Longrightarrow> sinfo_Team_ID s' = sinfo_Team_ID s \<Longrightarrow>
   receiver_loop env s' members receiver = receiver_loop env s members receiver"
proof (induction members arbitrary: receiver)
  case Nil
  then show ?case by simp
next
  case (Cons member members)
  from Cons.prems have c: "createUser env s' su = createUser env s su" for su
    by (rule createUser_sinfo)
  from Cons.prems have m: "GetMe env s' = GetMe env s"
    by (simp add: GetMe_def c)
  show ?case
    by (simp add: m c Cons.IH [OF Cons.prems])
qed

lemma direct_receiver_sinfo:
  "sinfo_User_ID s' = sinfo_User_ID s \<Longrightarrow> sinfo_Team_ID s' = sinfo_Team_ID s \<Longrightarrow>
   direct_receiver env s' ghost channelID = direct_receiver env s ghost channelID"
  by (simp add: direct_receiver_def receiver_loop_sinfo [of s' s])

lemma dispatch_events:
  "dispatch env rmsg ghost True msgs s
     = s\<lparr>eventChan := eventChan s @
           map (\<lambda>line. if HasPrefix (E_Channel rmsg) ''D''
                       then \<lparr>Type = ''direct_message'',
                             Data = DirectMessageEvent (cleanupMessage env line) (E_Channel rmsg) ghost
                                      (direct_receiver env s ghost (E_Channel rmsg))\<rparr>
                       else \<lparr>Type = ''channel_message'',
                             Data = ChannelMessageEvent (cleanupMessage env line) (E_Channel rmsg) ghost\<rparr>)
               msgs\<rparr>"
proof (induction msgs arbitrary: s)
  case Nil
  then show ?case by simp
next
  case (Cons msg msgs)
  define e where "e =
    (if HasPrefix (E_Channel rmsg) ''D''
     then \<lparr>Type = ''direct_message'',
           Data = DirectMessageEvent (cleanupMessage env msg) (E_Channel rmsg) ghost
                    (direct_receiver env s ghost (E_Channel rmsg))\<rparr>
     else \<lparr>Type = ''channel_message'',
           Data = ChannelMessageEvent (cleanupMessage env msg) (E_Channel rmsg) ghost\<rparr>)"
  have step: "dispatch env rmsg ghost True (msg # msgs) s = dispatch env rmsg ghost True msgs (send e s)"
    by (simp add: e_def Let_def sendDirectMessage_def sendPublicMessage_def)
  have d: "direct_receiver env (send e s) ghost (E_Channel rmsg)
           = direct_receiver env s ghost (E_Channel rmsg)"
    by (rule direct_receiver_sinfo) (simp_all add: send_def)
  show ?case
    unfolding step Cons.IH [of "send e s"] d
    by (simp add: send_def e_def)
qed

lemma mark_deleted_Channel: "E_Channel (mark_deleted env rmsg) = E_Channel rmsg"
  by (simp add: mark_deleted_def)

lemma forward_events:
  assumes "getSlackUserFromMessage env s (mark_deleted env rmsg) = Inr (Inr suser)"
    and "render env (mark_deleted env rmsg) = Inr (msgs, h)"
  shows "forward env s rmsg
     = Inr (s\<lparr>eventChan := eventChan s @
           map (\<lambda>line. if HasPrefix (E_Channel rmsg) ''D''
                       then \<lparr>Type = ''direct_message'',
                             Data = DirectMessageEvent (cleanupMessage env line) (E_Channel rmsg)
                                      (createUser env s (Some suser))
                                      (direct_receiver env s (createUser env s (Some suser))
                                         (E_Channel rmsg))\<rparr>
                       else \<lparr>Type = ''channel_message'',
                             Data = ChannelMessageEvent (cleanupMessage env line) (E_Channel rmsg)
                                      (createUser env s (Some suser))\<rparr>)
               msgs\<rparr>)"
proof -
  have f: "forward env s rmsg
        = Inr (dispatch env (mark_deleted env rmsg) (createUser env s (Some suser)) h msgs s)"
    using assms by (simp add: forward_def)
  show ?thesis
  proof (cases "msgs = []")
    case True
    with f show ?thesis by simp
  next
    case False
    with render_handled [OF assms(2)] have "h" by simp
    with f show ?thesis
      by (simp add: dispatch_events mark_deleted_Channel)
  qed
qed

lemma getSlackUserFromMessage_time_Sleep:
  "getSlackUserFromMessage env (time_Sleep env n s) rmsg = getSlackUserFromMessage env s rmsg"
proof -
  have t: "sinfo_Team_ID (time_Sleep env n s) = sinfo_Team_ID s"
    by (simp add: time_Sleep_def)
  show ?thesis
    by (simp only: getSlackUserFromMessage_def t)
qed

text \<open>
  A message of the local account whose id \<open>100\<close> differs from the recorded \<open>200\<close>, and
  which has no text, no attachment and no file: the handler leaves the state as it is,
  and no event is sent. The same holds for such a message with a text, when the lookup of
  its sender fails.
\<close>

theorem own_message_forward_counterexample:
  "E_User (ex_own ''100'' []) = sinfo_User_ID ex_slack_sent
   \<and> msgLast ex_slack_sent (E_Channel (ex_own ''100'' [])) = Some ''200''
   \<and> E_Timestamp (ex_own ''100'' []) \<noteq> ''200''
   \<and> handleSlackActionPost ex_env ex_slack_sent (ex_own ''100'' []) = Inr ex_slack_sent
   \<and> handleSlackActionPost ex_env_offline ex_slack_sent (ex_own ''100'' ''hello'') = Inr ex_slack_sent
   \<and> eventChan ex_slack_sent = []"
  by (simp add: handleSlackActionPost_def own_echo_def forward_def mark_deleted_def
      getSlackUserFromMessage_def render_def createUser_def map_get_def Let_def
      ex_own_def ex_slack_sent_def ex_slack_def ex_env_def ex_lookup_def
      ex_env_offline_def ex_no_lookup_def)

text \<open>
  C2, amended: let the event be a message of the local account's own user id. If the send
  path has recorded the id \<open>M\<close> for the channel (\<open>MsgChannel\<close> records it under the
  channel id in upper case) and the event on that channel carries \<open>M\<close>, the handler
  returns with the state unchanged: no event is sent. If the event carries an
  id different from the recorded one, also after the second reading when the handler
  sleeps, the message is not suppressed. When its sender is resolved, the handler sends
  one event for every line the message renders to, in their order, and nothing else: on a
  channel whose id starts with \<open>D\<close> a direct message, otherwise a channel message, each
  with the cleaned line as its text, the channel of the event, and as its sender the
  identity made of the resolved user. For a message of no special subtype the sender is
  the user that the lookup of the event's user id gives, and without attachments, files
  and thread the lines are the lines of the text.
\<close>

theorem own_message_echo:
  assumes own: "E_User rmsg = sinfo_User_ID s"
  shows "(MsgChannel env s0 channelID text = (s, Inr M) \<and> E_Channel rmsg = ToUpper env channelID
            \<and> E_Timestamp rmsg = M \<longrightarrow>
          handleSlackActionPost env s rmsg = Inr s)
       \<and> (map_get (msgLast s) (E_Channel rmsg) \<noteq> E_Timestamp rmsg
            \<and> (map_get (msgLast s) (E_Channel rmsg) < E_Timestamp rmsg \<longrightarrow>
                 map_get (during_sleep env (msgLast s)) (E_Channel rmsg) \<noteq> E_Timestamp rmsg)
            \<and> getSlackUserFromMessage env s (mark_deleted env rmsg) = Inr (Inr suser)
            \<and> render env (mark_deleted env rmsg) = Inr (msgs, h) \<longrightarrow>
          handleSlackActionPost env s rmsg
            = Inr ((if map_get (msgLast s) (E_Channel rmsg) < E_Timestamp rmsg
                    then time_Sleep env 100 s else s)
                   \<lparr>eventChan := eventChan s @
                      map (\<lambda>line. if HasPrefix (E_Channel rmsg) ''D''
                                  then \<lparr>Type = ''direct_message'',
                                        Data = DirectMessageEvent (cleanupMessage env line)
                                                 (E_Channel rmsg) (createUser env s (Some suser))
                                                 (direct_receiver env s (createUser env s (Some suser))
                                                    (E_Channel rmsg))\<rparr>
                                  else \<lparr>Type = ''channel_message'',
                                        Data = ChannelMessageEvent (cleanupMessage env line)
                                                 (E_Channel rmsg) (createUser env s (Some suser))\<rparr>)
                          msgs\<rparr>))
       \<and> (E_SubType rmsg \<notin> {''message_changed'', ''message_deleted'', ''bot_message''} \<longrightarrow>
            getSlackUserFromMessage env s (mark_deleted env rmsg)
              = (case GetUserInfo env (E_User rmsg) of
                   Inl err \<Rightarrow> Inr (Inl err)
                 | Inr user \<Rightarrow> Inr (Inr user))
          \<and> (E_Attachments rmsg = [] \<and> E_Files rmsg = [] \<and> E_ThreadTimestamp rmsg = [] \<longrightarrow>
               render env (mark_deleted env rmsg)
                 = Inr (if E_Text rmsg \<noteq> [] then Split_nl (E_Text rmsg) else [],
                        E_Text rmsg \<noteq> [])))"
proof (intro conjI impI)
  assume a: "MsgChannel env s0 channelID text = (s, Inr M) \<and> E_Channel rmsg = ToUpper env channelID
            \<and> E_Timestamp rmsg = M"
  then have "msgLast s (ToUpper env channelID) = Some M"
    by (auto simp: MsgChannel_def split: sum.splits)
  with a have "map_get (msgLast s) (E_Channel rmsg) = E_Timestamp rmsg"
    by (simp add: map_get_def)
  with own have "own_echo env s rmsg = (s, True)"
    by (simp add: own_echo_def)
  then show "handleSlackActionPost env s rmsg = Inr s"
    by (simp add: handleSlackActionPost_def)
next
  let ?events = "map (\<lambda>line. if HasPrefix (E_Channel rmsg) ''D''
                                  then \<lparr>Type = ''direct_message'',
                                        Data = DirectMessageEvent (cleanupMessage env line)
                                                 (E_Channel rmsg) (createUser env s (Some suser))
                                                 (direct_receiver env s (createUser env s (Some suser))
                                                    (E_Channel rmsg))\<rparr>
                                  else \<lparr>Type = ''channel_message'',
                                        Data = ChannelMessageEvent (cleanupMessage env line)
                                                 (E_Channel rmsg) (createUser env s (Some suser))\<rparr>)
                          msgs"
  assume b: "map_get (msgLast s) (E_Channel rmsg) \<noteq> E_Timestamp rmsg
            \<and> (map_get (msgLast s) (E_Channel rmsg) < E_Timestamp rmsg \<longrightarrow>
                 map_get (during_sleep env (msgLast s)) (E_Channel rmsg) \<noteq> E_Timestamp rmsg)
            \<and> getSlackUserFromMessage env s (mark_deleted env rmsg) = Inr (Inr suser)
            \<and> render env (mark_deleted env rmsg) = Inr (msgs, h)"
  then have g: "getSlackUserFromMessage env s (mark_deleted env rmsg) = Inr (Inr suser)"
    and r: "render env (mark_deleted env rmsg) = Inr (msgs, h)"
    by simp_all
  show "handleSlackActionPost env s rmsg
            = Inr ((if map_get (msgLast s) (E_Channel rmsg) < E_Timestamp rmsg
                    then time_Sleep env 100 s else s)
                   \<lparr>eventChan := eventChan s @ ?events\<rparr>)"
  proof (cases "map_get (msgLast s) (E_Channel rmsg) < E_Timestamp rmsg")
    case True
    define s' where "s' = time_Sleep env 100 s"
    have i: "sinfo_User_ID s' = sinfo_User_ID s" "sinfo_Team_ID s' = sinfo_Team_ID s"
      and c: "eventChan s' = eventChan s"
      by (simp_all add: s'_def time_Sleep_def)
    from True own b have e: "own_echo env s rmsg = (s', False)"
      by (simp add: own_echo_def s'_def time_Sleep_def Let_def)
    from g have "getSlackUserFromMessage env s' (mark_deleted env rmsg) = Inr (Inr suser)"
      by (simp add: s'_def getSlackUserFromMessage_time_Sleep)
    from forward_events [OF this r]
    have "forward env s' rmsg = Inr (s'\<lparr>eventChan := eventChan s @ ?events\<rparr>)"
      by (simp only: createUser_sinfo [OF i] direct_receiver_sinfo [OF i] c)
    with e True show ?thesis
      by (simp add: handleSlackActionPost_def s'_def)
  next
    case False
    with own b have e: "own_echo env s rmsg = (s, False)"
      by (simp add: own_echo_def)
    from forward_events [OF g r] e False show ?thesis
      by (simp add: handleSlackActionPost_def)
  qed
next
  assume "E_SubType rmsg \<notin> {''message_changed'', ''message_deleted'', ''bot_message''}"
  then have t: "E_SubType rmsg \<noteq> ''message_changed''" "E_SubType rmsg \<noteq> ''message_deleted''"
    "E_SubType rmsg \<noteq> ''bot_message''"
    by simp_all
  from t have m: "mark_deleted env rmsg = rmsg"
    by (simp add: mark_deleted_def)
  show "getSlackUserFromMessage env s (mark_deleted env rmsg)
              = (case GetUserInfo env (E_User rmsg) of
                   Inl err \<Rightarrow> Inr (Inl err)
                 | Inr user \<Rightarrow> Inr (Inr user))"
    unfolding m using t by (simp add: getSlackUserFromMessage_def)
next
  assume "E_SubType rmsg \<notin> {''message_changed'', ''message_deleted'', ''bot_message''}"
  then have t: "E_SubType rmsg \<noteq> ''message_changed''" "E_SubType rmsg \<noteq> ''message_deleted''"
    by simp_all
  from t have m: "mark_deleted env rmsg = rmsg"
    by (simp add: mark_deleted_def)
  assume "E_Attachments rmsg = [] \<and> E_Files rmsg = [] \<and> E_ThreadTimestamp rmsg = []"
  then show "render env (mark_deleted env rmsg)
                 = Inr (if E_Text rmsg \<noteq> [] then Split_nl (E_Text rmsg) else [],
                        E_Text rmsg \<noteq> [])"
    unfolding m using t by (simp add: render_def)
qed

theorem own_message_echo_witness:
  "E_User (ex_own ''100'' ''hello'') = sinfo_User_ID ex_slack_acked
   \<and> MsgChannel ex_env ex_slack ''ch1'' ''hello'' = (ex_slack_acked, Inr ''100'')
   \<and> E_Channel (ex_own ''100'' ''hello'') = ToUpper ex_env ''ch1''
   \<and> handleSlackActionPost ex_env ex_slack_acked (ex_own ''100'' ''hello'') = Inr ex_slack_acked
   \<and> E_User (ex_own ''300'' ''hi\<newline>there'') = sinfo_User_ID ex_slack_sent
   \<and> E_SubType (ex_own ''300'' ''hi\<newline>there'')
        \<notin> {''message_changed'', ''message_deleted'', ''bot_message''}
   \<and> map_get (msgLast ex_slack_sent) (E_Channel (ex_own ''300'' ''hi\<newline>there'')) = ''200''
   \<and> map_get (during_sleep ex_env (msgLast ex_slack_sent)) (E_Channel (ex_own ''300'' ''hi\<newline>there'')) = ''200''
   \<and> getSlackUserFromMessage ex_env ex_slack_sent (mark_deleted ex_env (ex_own ''300'' ''hi\<newline>there''))
       = Inr (Inr ex_me)
   \<and> render ex_env (mark_deleted ex_env (ex_own ''300'' ''hi\<newline>there'')) = Inr ([''hi'', ''there''], True)
   \<and> handleSlackActionPost ex_env ex_slack_sent (ex_own ''300'' ''hi\<newline>there'')
       = Inr (ex_slack_sent
                \<lparr>slept := [100],
                 eventChan :=
                   [\<lparr>Type = ''channel_message'', Data = ChannelMessageEvent ''hi'' ''CH1'' ex_ghost_me\<rparr>,
                    \<lparr>Type = ''channel_message'', Data = ChannelMessageEvent ''there'' ''CH1'' ex_ghost_me\<rparr>]\<rparr>)
   \<and> handleSlackActionPost ex_env ex_slack_sent (ex_own_direct ''300'' ''hi'')
       = Inr (ex_slack_sent
                \<lparr>slept := [100],
                 eventChan :=
                   [\<lparr>Type = ''direct_message'',
                     Data = DirectMessageEvent ''hi'' ''DM1'' ex_ghost_me ex_ghost_bob\<rparr>]\<rparr>)"
proof -
  have o1: "E_User (ex_own ''100'' ''hello'') = sinfo_User_ID ex_slack_acked"
    by (simp add: ex_own_def ex_slack_acked_def ex_slack_def)
  have u': "ex_ToUpper ''ch1'' = ''CH1''"
    by code_simp
  have u: "ToUpper ex_env ''ch1'' = ''CH1''"
    by (simp add: ex_env_def u')
  have m: "MsgChannel ex_env ex_slack ''ch1'' ''hello'' = (ex_slack_acked, Inr ''100'')"
    by (simp add: MsgChannel_def ex_env_def u' ex_post_def ex_slack_acked_def ex_slack_def)
  have c: "E_Channel (ex_own ''100'' ''hello'') = ToUpper ex_env ''ch1''"
    by (simp add: u) (simp add: ex_own_def)
  have t: "E_Timestamp (ex_own ''100'' ''hello'') = ''100''"
    by (simp add: ex_own_def)
  have o2: "E_User (ex_own ''300'' ''hi\<newline>there'') = sinfo_User_ID ex_slack_sent"
    by (simp add: ex_own_def ex_slack_sent_def ex_slack_def)
  have p: "E_SubType (ex_own ''300'' ''hi\<newline>there'')
        \<notin> {''message_changed'', ''message_deleted'', ''bot_message''}"
    by (simp add: ex_own_def)
  have q: "E_Attachments (ex_own ''300'' ''hi\<newline>there'') = []
      \<and> E_Files (ex_own ''300'' ''hi\<newline>there'') = []
      \<and> E_ThreadTimestamp (ex_own ''300'' ''hi\<newline>there'') = []"
    by (simp add: ex_own_def)
  have l: "map_get (msgLast ex_slack_sent) (E_Channel (ex_own ''300'' ''hi\<newline>there'')) = ''200''"
    by (simp add: ex_own_def ex_slack_sent_def map_get_def)
  have d: "map_get (during_sleep ex_env (msgLast ex_slack_sent)) (E_Channel (ex_own ''300'' ''hi\<newline>there'')) = ''200''"
    by (simp add: ex_own_def ex_slack_sent_def map_get_def ex_env_def ex_quiet_def)
  have f: "E_Timestamp (ex_own ''300'' ''hi\<newline>there'') = ''300''"
    "E_Channel (ex_own ''300'' ''hi\<newline>there'') = ''CH1''"
    "E_User (ex_own ''300'' ''hi\<newline>there'') = ''U1''"
    "E_Text (ex_own ''300'' ''hi\<newline>there'') = ''hi\<newline>there''"
    by (simp_all add: ex_own_def)
  have k: "GetUserInfo ex_env ''U1'' = Inr ex_me" "cleanupMessage ex_env = (\<lambda>t. t)"
    by (simp_all add: ex_env_def ex_lookup_def ex_text_def fun_eq_iff)
  have gh: "createUser ex_env ex_slack_sent (Some ex_me) = ex_ghost_me"
    by (simp add: createUser_def ex_env_def ex_flags_def ex_me_def ex_ghost_me_def
        ex_slack_sent_def ex_slack_def)
  have sl: "time_Sleep ex_env 100 ex_slack_sent = ex_slack_sent\<lparr>slept := [100]\<rparr>"
    by (simp add: time_Sleep_def ex_env_def ex_quiet_def ex_slack_sent_def ex_slack_def)
  have ev: "eventChan ex_slack_sent = []"
    by (simp add: ex_slack_sent_def ex_slack_def)
  note w = own_message_echo [OF o2, of ex_env ex_slack "''ch1''" "''hello''" "''100''" ex_me
      "[''hi'', ''there'']" True]
  from w [THEN conjunct2, THEN conjunct2, THEN mp, OF p, THEN conjunct1]
  have g: "getSlackUserFromMessage ex_env ex_slack_sent (mark_deleted ex_env (ex_own ''300'' ''hi\<newline>there''))
       = Inr (Inr ex_me)"
    by (simp add: f k)
  from w [THEN conjunct2, THEN conjunct2, THEN mp, OF p, THEN conjunct2, THEN mp, OF q]
  have r: "render ex_env (mark_deleted ex_env (ex_own ''300'' ''hi\<newline>there'')) = Inr ([''hi'', ''there''], True)"
    by (simp add: f)
  have h: "map_get (msgLast ex_slack_sent) (E_Channel (ex_own ''300'' ''hi\<newline>there''))
             \<noteq> E_Timestamp (ex_own ''300'' ''hi\<newline>there'')
         \<and> (map_get (msgLast ex_slack_sent) (E_Channel (ex_own ''300'' ''hi\<newline>there''))
               < E_Timestamp (ex_own ''300'' ''hi\<newline>there'') \<longrightarrow>
             map_get (during_sleep ex_env (msgLast ex_slack_sent)) (E_Channel (ex_own ''300'' ''hi\<newline>there''))
               \<noteq> E_Timestamp (ex_own ''300'' ''hi\<newline>there''))
         \<and> getSlackUserFromMessage ex_env ex_slack_sent (mark_deleted ex_env (ex_own ''300'' ''hi\<newline>there''))
             = Inr (Inr ex_me)
         \<and> render ex_env (mark_deleted ex_env (ex_own ''300'' ''hi\<newline>there''))
             = Inr ([''hi'', ''there''], True)"
    using g r by (simp add: l d) (simp add: f)
  have lt: "map_get (msgLast ex_slack_sent) (E_Channel (ex_own ''300'' ''hi\<newline>there''))
              < E_Timestamp (ex_own ''300'' ''hi\<newline>there'')"
    by (simp add: l) (simp add: f)
  from own_message_echo [OF o1, of ex_env ex_slack "''ch1''" "''hello''" "''100''", THEN conjunct1]
    m c t
  have 1: "handleSlackActionPost ex_env ex_slack_acked (ex_own ''100'' ''hello'') = Inr ex_slack_acked"
    by simp
  from w [THEN conjunct2, THEN conjunct1, THEN mp, OF h]
  have 2: "handleSlackActionPost ex_env ex_slack_sent (ex_own ''300'' ''hi\<newline>there'')
       = Inr (ex_slack_sent
                \<lparr>slept := [100],
                 eventChan :=
                   [\<lparr>Type = ''channel_message'', Data = ChannelMessageEvent ''hi'' ''CH1'' ex_ghost_me\<rparr>,
                    \<lparr>Type = ''channel_message'', Data = ChannelMessageEvent ''there'' ''CH1'' ex_ghost_me\<rparr>]\<rparr>)"
    by (simp only: lt if_True sl gh ev k) (simp add: f HasPrefix_def)
  have o3: "E_User (ex_own_direct ''300'' ''hi'') = sinfo_User_ID ex_slack_sent"
    by (simp add: ex_own_direct_def ex_own_def ex_slack_sent_def ex_slack_def)
  have f3: "E_Timestamp (ex_own_direct ''300'' ''hi'') = ''300''"
    "E_Channel (ex_own_direct ''300'' ''hi'') = ''DM1''"
    by (simp_all add: ex_own_direct_def ex_own_def)
  have l3: "map_get (msgLast ex_slack_sent) ''DM1'' = []"
    "map_get (during_sleep ex_env (msgLast ex_slack_sent)) ''DM1'' = []"
    by (simp_all add: ex_slack_sent_def map_get_def ex_env_def ex_quiet_def)
  have g3: "getSlackUserFromMessage ex_env ex_slack_sent (mark_deleted ex_env (ex_own_direct ''300'' ''hi''))
       = Inr (Inr ex_me)"
    by (simp add: getSlackUserFromMessage_def mark_deleted_def ex_own_direct_def ex_own_def k)
  have r3: "render ex_env (mark_deleted ex_env (ex_own_direct ''300'' ''hi'')) = Inr ([''hi''], True)"
    by (simp add: render_def mark_deleted_def ex_own_direct_def ex_own_def)
  have si: "sinfo_User_ID ex_slack_sent = ''U1''"
    by (simp add: ex_slack_sent_def ex_slack_def)
  have me: "GetMe ex_env ex_slack_sent = ex_ghost_me"
    by (simp add: GetMe_def si k gh)
  have bo: "createUser ex_env ex_slack_sent (Some ex_bob) = ex_ghost_bob"
    by (simp add: createUser_def ex_env_def ex_flags_def ex_bob_def ex_ghost_bob_def
        ex_slack_sent_def ex_slack_def)
  have mb: "GetUsersInConversation ex_env ''DM1'' = [''U1'', ''U2'']"
    "GetUserInfo ex_env ''U2'' = Inr ex_bob"
    by (simp_all add: ex_env_def ex_members_def ex_lookup_def)
  have mu: "User (GetMe ex_env ex_slack_sent) = ''U1''" "Me ex_ghost_me"
    by (simp_all add: me ex_ghost_me_def)
  have rc: "direct_receiver ex_env ex_slack_sent ex_ghost_me ''DM1'' = ex_ghost_bob"
    by (simp add: direct_receiver_def mb mu bo)
  have h3: "map_get (msgLast ex_slack_sent) (E_Channel (ex_own_direct ''300'' ''hi''))
             \<noteq> E_Timestamp (ex_own_direct ''300'' ''hi'')
         \<and> (map_get (msgLast ex_slack_sent) (E_Channel (ex_own_direct ''300'' ''hi''))
               < E_Timestamp (ex_own_direct ''300'' ''hi'') \<longrightarrow>
             map_get (during_sleep ex_env (msgLast ex_slack_sent)) (E_Channel (ex_own_direct ''300'' ''hi''))
               \<noteq> E_Timestamp (ex_own_direct ''300'' ''hi''))
         \<and> getSlackUserFromMessage ex_env ex_slack_sent (mark_deleted ex_env (ex_own_direct ''300'' ''hi''))
             = Inr (Inr ex_me)
         \<and> render ex_env (mark_deleted ex_env (ex_own_direct ''300'' ''hi''))
             = Inr ([''hi''], True)"
    using g3 r3 by (simp add: f3 l3)
  have lt3: "map_get (msgLast ex_slack_sent) (E_Channel (ex_own_direct ''300'' ''hi''))
              < E_Timestamp (ex_own_direct ''300'' ''hi'')"
    by (simp add: f3 l3)
  from own_message_echo [OF o3, of ex_env ex_slack "''ch1''" "''hello''" "''100''" ex_me
      "[''hi'']" True, THEN conjunct2, THEN conjunct1, THEN mp, OF h3]
  have 3: "handleSlackActionPost ex_env ex_slack_sent (ex_own_direct ''300'' ''hi'')
       = Inr (ex_slack_sent
                \<lparr>slept := [100],
                 eventChan :=
                   [\<lparr>Type = ''direct_message'',
                     Data = DirectMessageEvent ''hi'' ''DM1'' ex_ghost_me ex_ghost_bob\<rparr>]\<rparr>)"
    by (simp only: lt3 if_True sl gh ev k f3 rc) (simp add: HasPrefix_def l3)
  from o1 m c 1 o2 p l d g r 2 3 show ?thesis
    by (intro conjI)
qed

subsection \<open>Reactions, stars and pins\<close>

text \<open>
  The bridge stores no messages, so the message of timestamp \<open>T\<close> that the reaction refers
  to cannot be resolved; the event loop still sends a channel message for the reaction.
\<close>

theorem reaction_target_counterexample:
  "handleSlack ex_env ex_slack [ReactionAddedEvent ''U2'' ''CH1'' ''T'' ''+1'']
     = Inr (ex_slack\<lparr>eventChan :=
              [\<lparr>Type = ''channel_message'',
                Data = ChannelMessageEvent ''[M T] Added reaction :+1:'' ''CH1'' ex_ghost_bob\<rparr>]\<rparr>)"
  by (simp add: handleActionMisc_def createUser_def HasPrefix_def send_def
      ex_env_def ex_lookup_def ex_bob_def ex_slack_def ex_ghost_bob_def ex_flags_def ex_text_def)

text \<open>
  C6, amended: the handler of a reaction-added or reaction-removed event never looks for
  the message the reaction refers to. It drops the event silently (the state is unchanged:
  nothing is sent, no error is raised) when the acting user cannot be resolved; when the
  user is resolved it sends exactly one message event that names the reaction and the
  timestamp of the item. A star or pin event is dropped silently when its item carries no
  message.
\<close>

theorem reaction_event:
  "(GetUserInfo env user = Inl err \<longrightarrow>
      handleSlack_event env s (ReactionAddedEvent user channel ts reaction) = Inr s
    \<and> handleSlack_event env s (ReactionRemovedEvent user channel ts reaction) = Inr s)
   \<and> (GetUserInfo env user = Inr suser \<and> \<not> HasPrefix channel ''D'' \<longrightarrow>
      handleSlack_event env s (ReactionAddedEvent user channel ts reaction)
        = Inr (send \<lparr>Type = ''channel_message'',
                     Data = ChannelMessageEvent
                              (''[M '' @ formatTS env ts @ ''] Added reaction :'' @ reaction @ '':'')
                              channel (createUser env s (Some suser))\<rparr> s)
    \<and> handleSlack_event env s (ReactionRemovedEvent user channel ts reaction)
        = Inr (send \<lparr>Type = ''channel_message'',
                     Data = ChannelMessageEvent
                              (''[M '' @ formatTS env ts @ ''] Removed reaction :'' @ reaction @ '':'')
                              channel (createUser env s (Some suser))\<rparr> s))
   \<and> (GetUserInfo env user = Inr suser \<and> HasPrefix channel ''D'' \<longrightarrow>
      handleSlack_event env s (ReactionAddedEvent user channel ts reaction)
        = Inr (send \<lparr>Type = ''direct_message'',
                     Data = DirectMessageEvent
                              (''[M '' @ formatTS env ts @ ''] Added reaction :'' @ reaction @ '':'')
                              channel (createUser env s (Some suser))
                              (direct_receiver env s (createUser env s (Some suser)) channel)\<rparr> s)
    \<and> handleSlack_event env s (ReactionRemovedEvent user channel ts reaction)
        = Inr (send \<lparr>Type = ''direct_message'',
                     Data = DirectMessageEvent
                              (''[M '' @ formatTS env ts @ ''] Removed reaction :'' @ reaction @ '':'')
                              channel (createUser env s (Some suser))
                              (direct_receiver env s (createUser env s (Some suser)) channel)\<rparr> s))
   \<and> handleSlack_event env s (StarAddedEvent user channel None) = Inr s
   \<and> handleSlack_event env s (StarRemovedEvent user channel None) = Inr s
   \<and> handleSlack_event env s (PinAddedEvent user channel None) = Inr s
   \<and> handleSlack_event env s (PinRemovedEvent user channel None) = Inr s"
  by (simp add: handleActionMisc_def sendDirectMessage_def Let_def)

theorem reaction_event_witness:
  "GetUserInfo ex_env ''U9'' = Inl (Err ''user_not_found'')
   \<and> handleSlack_event ex_env ex_slack (ReactionAddedEvent ''U9'' ''CH1'' ''T'' ''+1'') = Inr ex_slack
   \<and> GetUserInfo ex_env ''U2'' = Inr ex_bob \<and> \<not> HasPrefix ''CH1'' ''D'' \<and> HasPrefix ''DM1'' ''D''
   \<and> handleSlack_event ex_env ex_slack (ReactionRemovedEvent ''U2'' ''CH1'' ''T'' ''+1'')
       = Inr (send \<lparr>Type = ''channel_message'',
                    Data = ChannelMessageEvent ''[M T] Removed reaction :+1:'' ''CH1'' ex_ghost_bob\<rparr>
                ex_slack)
   \<and> handleSlack_event ex_env ex_slack (ReactionAddedEvent ''U2'' ''DM1'' ''T'' ''+1'')
       = Inr (send \<lparr>Type = ''direct_message'',
                    Data = DirectMessageEvent ''[M T] Added reaction :+1:'' ''DM1'' ex_ghost_bob
                             ex_ghost_bob\<rparr>
                ex_slack)"
proof -
  have a: "GetUserInfo ex_env ''U9'' = Inl (Err ''user_not_found'')"
    and b: "GetUserInfo ex_env ''U2'' = Inr ex_bob"
    by (simp_all add: ex_env_def ex_lookup_def)
  have p: "\<not> HasPrefix ''CH1'' ''D''" and q: "HasPrefix ''DM1'' ''D''"
    by (simp_all add: HasPrefix_def)
  have g: "createUser ex_env ex_slack (Some ex_bob) = ex_ghost_bob"
    by (simp add: createUser_def ex_env_def ex_flags_def ex_bob_def ex_slack_def ex_ghost_bob_def)
  have f: "formatTS ex_env ''T'' = ''T''"
    by (simp add: ex_env_def ex_text_def)
  have r: "direct_receiver ex_env ex_slack ex_ghost_bob ''DM1'' = ex_ghost_bob"
    by (simp add: direct_receiver_def ex_ghost_bob_def)
  from reaction_event [of ex_env "''U9''" "Err ''user_not_found''" ex_slack "''CH1''" "''T''" "''+1''" ex_bob] a
  have 1: "handleSlack_event ex_env ex_slack (ReactionAddedEvent ''U9'' ''CH1'' ''T'' ''+1'') = Inr ex_slack"
    by simp
  from reaction_event [of ex_env "''U2''" "Err ''user_not_found''" ex_slack "''CH1''" "''T''" "''+1''" ex_bob] b p g f
  have 2: "handleSlack_event ex_env ex_slack (ReactionRemovedEvent ''U2'' ''CH1'' ''T'' ''+1'')
       = Inr (send \<lparr>Type = ''channel_message'',
                    Data = ChannelMessageEvent ''[M T] Removed reaction :+1:'' ''CH1'' ex_ghost_bob\<rparr>
                ex_slack)"
    by simp
  from reaction_event [of ex_env "''U2''" "Err ''user_not_found''" ex_slack "''DM1''" "''T''" "''+1''" ex_bob] b q g f r
  have 3: "handleSlack_event ex_env ex_slack (ReactionAddedEvent ''U2'' ''DM1'' ''T'' ''+1'')
       = Inr (send \<lparr>Type = ''direct_message'',
                    Data = DirectMessageEvent ''[M T] Added reaction :+1:'' ''DM1'' ex_ghost_bob
                             ex_ghost_bob\<rparr>
                ex_slack)"
    by simp
  from a b p q 1 2 3 show ?thesis by blast
qed

section \<open>Properties of the server\<close>

subsection \<open>The channel index\<close>

lemma Channel_existing:
  "channels s k = Some ch \<Longrightarrow> Channel s k = Inr (s, ch)"
  by (simp add: Channel_def)

lemma Channel_new:
  assumes "channels s k = None" and "Channel s k = Inr (s', ch)"
  shows "ch = next_channel s"
    and "next_channel s' = next_channel s + 1"
    and "ch_id (channel_store s' ch) = k"
    and "\<forall>r. r \<noteq> ch \<longrightarrow> channel_store s' r = channel_store s r"
    and "channels s' = ((channels s)(k \<mapsto> ch))(ch_name (channel_store s' ch) \<mapsto> ch)"
  using assms
  by (auto simp: Channel_def NewChannel_def Let_def split: option.splits sum.splits if_splits)

lemma Channel_keeps_dual_index:
  assumes inv: "dual_indexed s"
    and new: "channels s k = None"
    and ch: "Channel s k = Inr (s', ch)"
    and free: "channels s (ch_name (channel_store s' ch)) = None \<or> ch_name (channel_store s' ch) = k"
  shows "dual_indexed s'"
proof -
  let ?n = "ch_name (channel_store s' ch)"
  note n = Channel_new [OF new ch]
  show ?thesis
    unfolding dual_indexed_def
  proof (intro allI impI)
    fix k' c'
    assume a: "channels s' k' = Some c'"
    show "c' < next_channel s'
        \<and> (k' = ch_id (channel_store s' c') \<or> k' = ch_name (channel_store s' c'))
        \<and> channels s' (ch_id (channel_store s' c')) = Some c'
        \<and> channels s' (ch_name (channel_store s' c')) = Some c'"
    proof (cases "k' = k \<or> k' = ?n")
      case True
      with a n(5) have "c' = ch" by (auto split: if_splits)
      with True n show ?thesis by auto
    next
      case False
      with a n(5) have old: "channels s k' = Some c'" by (auto split: if_splits)
      with inv have o: "c' < next_channel s"
        "k' = ch_id (channel_store s c') \<or> k' = ch_name (channel_store s c')"
        "channels s (ch_id (channel_store s c')) = Some c'"
        "channels s (ch_name (channel_store s c')) = Some c'"
        unfolding dual_indexed_def by blast+
      from o(1) n(1) have ne: "c' \<noteq> ch" by simp
      with n(4) have st: "channel_store s' c' = channel_store s c'" by simp
      from o(3) new free have i: "ch_id (channel_store s c') \<noteq> k" "ch_id (channel_store s c') \<noteq> ?n"
        by auto
      from o(4) new free have m: "ch_name (channel_store s c') \<noteq> k" "ch_name (channel_store s c') \<noteq> ?n"
        by auto
      from o n(2) st i m show ?thesis
        by (simp add: n(5))
    qed
  qed
qed

lemma UnlinkChannel_dual_index:
  assumes inv: "dual_indexed s" and reg: "channels s k = Some ch"
  shows "channels (UnlinkChannel s ch) (ch_id (channel_store s ch)) = None"
    and "channels (UnlinkChannel s ch) (ch_name (channel_store s ch)) = None"
    and "dual_indexed (UnlinkChannel s ch)"
proof -
  from inv reg have r: "channels s (ch_name (channel_store s ch)) = Some ch"
    unfolding dual_indexed_def by blast
  then have u: "UnlinkChannel s ch
      = s\<lparr>channels := ((channels s)(ch_name (channel_store s ch) := None))
                          (ch_id (channel_store s ch) := None)\<rparr>"
    by (simp add: UnlinkChannel_def)
  show "channels (UnlinkChannel s ch) (ch_id (channel_store s ch)) = None"
    and "channels (UnlinkChannel s ch) (ch_name (channel_store s ch)) = None"
    by (simp_all add: u)
  show "dual_indexed (UnlinkChannel s ch)"
    unfolding dual_indexed_def
  proof (intro allI impI)
    fix k' c'
    assume a: "channels (UnlinkChannel s ch) k' = Some c'"
    then have k': "k' \<noteq> ch_name (channel_store s ch)" "k' \<noteq> ch_id (channel_store s ch)"
      and old: "channels s k' = Some c'"
      by (auto simp: u split: if_splits)
    from inv old have o: "c' < next_channel s"
      "k' = ch_id (channel_store s c') \<or> k' = ch_name (channel_store s c')"
      "channels s (ch_id (channel_store s c')) = Some c'"
      "channels s (ch_name (channel_store s c')) = Some c'"
      unfolding dual_indexed_def by blast+
    from o(2) k' have ne: "c' \<noteq> ch" by auto
    from inv reg have c: "channels s (ch_id (channel_store s ch)) = Some ch"
      unfolding dual_indexed_def by blast
    from ne o(3) o(4) r c have
      "ch_id (channel_store s c') \<noteq> ch_name (channel_store s ch)"
      "ch_id (channel_store s c') \<noteq> ch_id (channel_store s ch)"
      "ch_name (channel_store s c') \<noteq> ch_name (channel_store s ch)"
      "ch_name (channel_store s c') \<noteq> ch_id (channel_store s ch)"
      by auto
    with o show "c' < next_channel (UnlinkChannel s ch)
        \<and> (k' = ch_id (channel_store (UnlinkChannel s ch) c')
            \<or> k' = ch_name (channel_store (UnlinkChannel s ch) c'))
        \<and> channels (UnlinkChannel s ch) (ch_id (channel_store (UnlinkChannel s ch) c')) = Some c'
        \<and> channels (UnlinkChannel s ch) (ch_name (channel_store (UnlinkChannel s ch) c')) = Some c'"
      by (simp add: u)
  qed
qed

text \<open>
  C1, amended: take a registry in which every entry is keyed by the id or the name of its
  channel and every registered channel is stored under both (the empty registry is one).
  Then \<open>Channel(id)\<close> returns an instance that the registry yields both for its backend
  id and for its display name; the registry keeps its shape when \<open>id\<close> is already a key,
  or when the display name that the bridge reports for \<open>id\<close> is not yet a key or is \<open>id\<close>
  itself. And after \<open>UnlinkChannel\<close> on a registered channel both its id-keyed and its
  name-keyed entry are absent, and the registry keeps its shape.
\<close>

theorem channel_dual_index:
  assumes "dual_indexed s"
  shows "(Channel s channelID = Inr (s', ch) \<longrightarrow>
            HasChannel s' (ch_id (channel_store s' ch)) = Some ch
          \<and> HasChannel s' (ch_name (channel_store s' ch)) = Some ch
          \<and> (channels s channelID \<noteq> None
               \<or> channels s (ch_name (channel_store s' ch)) = None
               \<or> ch_name (channel_store s' ch) = channelID \<longrightarrow> dual_indexed s'))
       \<and> (HasChannel s k = Some c \<longrightarrow>
            HasChannel (UnlinkChannel s c) (ch_id (channel_store s c)) = None
          \<and> HasChannel (UnlinkChannel s c) (ch_name (channel_store s c)) = None
          \<and> dual_indexed (UnlinkChannel s c))"
proof (intro conjI impI)
  assume c: "Channel s channelID = Inr (s', ch)"
  show "HasChannel s' (ch_id (channel_store s' ch)) = Some ch"
    and "HasChannel s' (ch_name (channel_store s' ch)) = Some ch"
  proof -
    have "HasChannel s' (ch_id (channel_store s' ch)) = Some ch
        \<and> HasChannel s' (ch_name (channel_store s' ch)) = Some ch"
    proof (cases "channels s channelID")
      case None
      from Channel_new [OF None c] show ?thesis
        by (simp add: HasChannel_def)
    next
      case (Some c0)
      with c have "s' = s" "ch = c0" by (simp_all add: Channel_existing)
      with Some assms show ?thesis
        unfolding dual_indexed_def HasChannel_def by blast
    qed
    then show "HasChannel s' (ch_id (channel_store s' ch)) = Some ch"
      and "HasChannel s' (ch_name (channel_store s' ch)) = Some ch"
      by simp_all
  qed
  assume f: "channels s channelID \<noteq> None
               \<or> channels s (ch_name (channel_store s' ch)) = None
               \<or> ch_name (channel_store s' ch) = channelID"
  show "dual_indexed s'"
  proof (cases "channels s channelID")
    case None
    with f have "channels s (ch_name (channel_store s' ch)) = None
               \<or> ch_name (channel_store s' ch) = channelID" by simp
    from Channel_keeps_dual_index [OF assms None c this] show ?thesis .
  next
    case (Some c0)
    with c have "s' = s" by (simp add: Channel_existing)
    with assms show ?thesis by simp
  qed
next
  assume "HasChannel s k = Some c"
  then have r: "channels s k = Some c" by (simp add: HasChannel_def)
  from UnlinkChannel_dual_index [OF assms r]
  show "HasChannel (UnlinkChannel s c) (ch_id (channel_store s c)) = None"
    and "HasChannel (UnlinkChannel s c) (ch_name (channel_store s c)) = None"
    and "dual_indexed (UnlinkChannel s c)"
    by (simp_all add: HasChannel_def)
qed

lemma ex_one_channel_eval:
  "Channel ex_server ''CH1''
     = Inr (ex_server\<lparr>logged := [''didn't find channel CH1: channel not found''],
                      channel_store := (channel_store ex_server)
                        (0 := \<lparr>ch_id = ''CH1'', ch_name = ''#general'', ch_service = ''slack'',
                               ch_modes = [''p'' \<mapsto> False], ch_members = []\<rparr>),
                      next_channel := 1,
                      channels := [''CH1'' \<mapsto> 0, ''#general'' \<mapsto> 0]\<rparr>, 0)"
  by (simp add: Channel_def NewChannel_def Let_def HasPrefix_def error_string_def
      empty_ChannelInfo_def ex_server_def ex_user_def ex_bridge_def ex_channel_name_def
      ex_channel_info_def)

lemma ex_two_channels_eval:
  "Channel (fst ex_one_channel) ''CH2''
     = Inr (ex_server\<lparr>logged := [''didn't find channel CH1: channel not found'',
                                  ''didn't find channel CH2: channel not found''],
                      channel_store := (channel_store ex_server)
                        (0 := \<lparr>ch_id = ''CH1'', ch_name = ''#general'', ch_service = ''slack'',
                               ch_modes = [''p'' \<mapsto> False], ch_members = []\<rparr>,
                         1 := \<lparr>ch_id = ''CH2'', ch_name = ''#general'', ch_service = ''slack'',
                               ch_modes = [''p'' \<mapsto> False], ch_members = []\<rparr>),
                      next_channel := 2,
                      channels := [''CH1'' \<mapsto> 0, ''#general'' \<mapsto> 0, ''CH2'' \<mapsto> 1,
                                   ''#general'' \<mapsto> 1]\<rparr>, 1)"
  by (simp add: ex_one_channel_def ex_one_channel_eval)
     (simp add: Channel_def NewChannel_def Let_def HasPrefix_def error_string_def
      empty_ChannelInfo_def ex_server_def ex_user_def ex_bridge_def ex_channel_name_def
      ex_channel_info_def)

text \<open>
  The bridge reports the same display name for two ids. After \<open>Channel("CH1")\<close> and
  \<open>Channel("CH2")\<close> the first channel is still registered under its id, but the lookup by its
  display name yields the second instance; and \<open>UnlinkChannel\<close> on the first channel
  removes nothing, so its id-keyed entry stays.
\<close>

theorem channel_dual_index_counterexample:
  "Channel ex_server ''CH1'' = Inr ex_one_channel \<and> snd ex_one_channel = 0
   \<and> Channel (fst ex_one_channel) ''CH2'' = Inr ex_two_channels \<and> snd ex_two_channels = 1
   \<and> HasChannel (fst ex_two_channels) ''CH1'' = Some 0
   \<and> ch_id (channel_store (fst ex_two_channels) 0) = ''CH1''
   \<and> ch_name (channel_store (fst ex_two_channels) 0) = ''#general''
   \<and> HasChannel (fst ex_two_channels) ''#general'' = Some 1
   \<and> HasChannel (UnlinkChannel (fst ex_two_channels) 0) ''CH1'' = Some 0"
proof -
  have 1: "Channel ex_server ''CH1'' = Inr ex_one_channel"
    by (simp add: ex_one_channel_def ex_one_channel_eval)
  have 2: "snd ex_one_channel = 0"
    by (simp add: ex_one_channel_def ex_one_channel_eval)
  have 3: "Channel (fst ex_one_channel) ''CH2'' = Inr ex_two_channels"
    by (simp add: ex_two_channels_def ex_two_channels_eval)
  have 4: "snd ex_two_channels = 1"
    by (simp add: ex_two_channels_def ex_two_channels_eval)
  have 5: "HasChannel (fst ex_two_channels) ''CH1'' = Some 0"
    and 6: "ch_id (channel_store (fst ex_two_channels) 0) = ''CH1''"
    and 7: "ch_name (channel_store (fst ex_two_channels) 0) = ''#general''"
    and 8: "HasChannel (fst ex_two_channels) ''#general'' = Some 1"
    by (simp_all add: ex_two_channels_def ex_two_channels_eval HasChannel_def)
  have 9: "HasChannel (UnlinkChannel (fst ex_two_channels) 0) ''CH1'' = Some 0"
    by (simp add: ex_two_channels_def ex_two_channels_eval HasChannel_def UnlinkChannel_def)
  from 1 2 3 4 5 6 7 8 9 show ?thesis by blast
qed

theorem channel_dual_index_witness:
  "dual_indexed ex_server
   \<and> Channel ex_server ''CH1'' = Inr ex_one_channel
   \<and> HasChannel (fst ex_one_channel) ''CH1'' = Some (snd ex_one_channel)
   \<and> HasChannel (fst ex_one_channel) ''#general'' = Some (snd ex_one_channel)
   \<and> dual_indexed (fst ex_one_channel)
   \<and> HasChannel (UnlinkChannel (fst ex_one_channel) (snd ex_one_channel)) ''CH1'' = None
   \<and> HasChannel (UnlinkChannel (fst ex_one_channel) (snd ex_one_channel)) ''#general'' = None
   \<and> dual_indexed (UnlinkChannel (fst ex_one_channel) (snd ex_one_channel))"
proof -
  have i: "dual_indexed ex_server"
    by (simp add: dual_indexed_def ex_server_def)
  have c: "Channel ex_server ''CH1'' = Inr (fst ex_one_channel, snd ex_one_channel)"
    by (simp add: ex_one_channel_def ex_one_channel_eval)
  have f: "channels ex_server (ch_name (channel_store (fst ex_one_channel) (snd ex_one_channel))) = None"
    by (simp add: ex_server_def)
  have n: "ch_id (channel_store (fst ex_one_channel) (snd ex_one_channel)) = ''CH1''"
    "ch_name (channel_store (fst ex_one_channel) (snd ex_one_channel)) = ''#general''"
    by (simp_all add: ex_one_channel_def ex_one_channel_eval)
  from channel_dual_index [OF i, of "''CH1''" "fst ex_one_channel" "snd ex_one_channel"] c f n
  have a: "HasChannel (fst ex_one_channel) ''CH1'' = Some (snd ex_one_channel)"
    "HasChannel (fst ex_one_channel) ''#general'' = Some (snd ex_one_channel)"
    "dual_indexed (fst ex_one_channel)"
    by simp_all
  from channel_dual_index [OF a(3), of "''CH1''" "fst ex_one_channel" "snd ex_one_channel"
      "''CH1''" "snd ex_one_channel"] a(1) n
  have b: "HasChannel (UnlinkChannel (fst ex_one_channel) (snd ex_one_channel)) ''CH1'' = None"
    "HasChannel (UnlinkChannel (fst ex_one_channel) (snd ex_one_channel)) ''#general'' = None"
    "dual_indexed (UnlinkChannel (fst ex_one_channel) (snd ex_one_channel))"
    by simp_all
  from i c a b show ?thesis by simp
qed

subsection \<open>Renaming\<close>



lemma RenameUser_locked_in_use:
  "users s (ID se newNick) \<noteq> None \<Longrightarrow> RenameUser_locked se s u newNick = (s, None)"
  by (simp add: RenameUser_locked_def)


lemma RenameUser_in_use:
  assumes "truncate_nick (MaxNickLen (config s)) newNick = Inr nick"
    and "users s (ID se nick) \<noteq> None"
  shows "RenameUser se s u newNick
       = Inr (upd_user u (\<lambda>usr. usr\<lparr>encoded := encoded usr @
                [\<lparr>Prefix = Some (server_Prefix s), Command = irc_ERR_NICKNAMEINUSE,
                  Params = [nick], Trailing = ''Nickname is already in use''\<rparr>]\<rparr>) s, False)"
  by (simp add: RenameUser_def assms(1) RenameUser_locked_in_use [OF assms(2)]
      EncodeMessage_def Encode_def)








lemma ex_ID:
  "ID ex_senv ''Alicia'' = ''alicia''" "ID ex_senv ''BOB'' = ''bob''"
  "ID ex_senv ''ALICE'' = ''alice''" "ID ex_senv ''alice'' = ''alice''"
proof -
  have "ex_ToLower ''Alicia'' = ''alicia''" "ex_ToLower ''BOB'' = ''bob''"
    "ex_ToLower ''ALICE'' = ''alice''" "ex_ToLower ''alice'' = ''alice''"
    by code_simp+
  then show "ID ex_senv ''Alicia'' = ''alicia''" "ID ex_senv ''BOB'' = ''bob''"
    "ID ex_senv ''ALICE'' = ''alice''" "ID ex_senv ''alice'' = ''alice''"
    by (simp_all add: ID_def ex_senv_def)
qed


text \<open>
  C9: let the user be registered under its own normalized nick, and let the truncated and
  normalized form of the new nick be that same key. Then \<open>RenameUser\<close> returns false and
  reports the nickname-in-use error to the user, and the nick of the user, the user map
  and the channels stay as they are: the check for a collision does not exempt the entry
  of the user itself. So a change of the case of one's own nick fails, whatever
  function \<open>strings.ToLower\<close> is.
\<close>

theorem RenameUser_own_nick:
  assumes "truncate_nick (MaxNickLen (config s)) newNick = Inr nick"
    and "users s (user_ID se s u) = Some u"
    and "ID se nick = user_ID se s u"
  shows "\<exists>s'. RenameUser se s u newNick = Inr (s', False)
          \<and> users s' = users s
          \<and> Nick (user_store s' u) = Nick (user_store s u)
          \<and> user_store s' = (user_store s)
               (u := (user_store s u)\<lparr>encoded := encoded (user_store s u) @
                  [\<lparr>Prefix = Some (server_Prefix s), Command = irc_ERR_NICKNAMEINUSE,
                    Params = [nick], Trailing = ''Nickname is already in use''\<rparr>]\<rparr>)
          \<and> channels s' = channels s"
proof -
  from assms(2,3) have "users s (ID se nick) \<noteq> None"
    by simp
  from RenameUser_in_use [OF assms(1) this] show ?thesis
    by (simp add: upd_user_def)
qed

theorem RenameUser_own_nick_witness:
  "truncate_nick (MaxNickLen (config ex_server_joined)) ''ALICE'' = Inr ''ALICE''
   \<and> users ex_server_joined (user_ID ex_senv ex_server_joined 0) = Some 0
   \<and> ID ex_senv ''ALICE'' = user_ID ex_senv ex_server_joined 0
   \<and> (\<exists>s'. RenameUser ex_senv ex_server_joined 0 ''ALICE'' = Inr (s', False)
          \<and> users s' = users ex_server_joined
          \<and> Nick (user_store s' 0) = ''alice''
          \<and> encoded (user_store s' 0)
              = [\<lparr>Prefix = Some \<lparr>PName = ''matterircd'', PUser = [], PHost = []\<rparr>,
                  Command = ''433'', Params = [''ALICE''],
                  Trailing = ''Nickname is already in use''\<rparr>])"
proof -
  have n: "truncate_nick (MaxNickLen (config ex_server_joined)) ''ALICE'' = Inr ''ALICE''"
    by (simp add: truncate_nick_def ex_server_joined_def ex_config_def)
  have i: "user_ID ex_senv ex_server_joined 0 = ''alice''"
    by (simp add: user_ID_def ex_server_joined_def ex_user_def ex_ID)
  have r: "users ex_server_joined (user_ID ex_senv ex_server_joined 0) = Some 0"
    by (simp add: i) (simp add: ex_server_joined_def)
  have t: "ID ex_senv ''ALICE'' = user_ID ex_senv ex_server_joined 0"
    by (simp add: i ex_ID)
  have k: "Nick (user_store ex_server_joined 0) = ''alice''"
    "encoded (user_store ex_server_joined 0) = []"
    "server_Prefix ex_server_joined = \<lparr>PName = ''matterircd'', PUser = [], PHost = []\<rparr>"
    by (simp_all add: server_Prefix_def ex_server_joined_def ex_user_def ex_config_def)
  from RenameUser_own_nick [OF n r t] obtain s' where
    h: "RenameUser ex_senv ex_server_joined 0 ''ALICE'' = Inr (s', False)"
    "users s' = users ex_server_joined"
    "Nick (user_store s' 0) = Nick (user_store ex_server_joined 0)"
    "user_store s' = (user_store ex_server_joined)
               (0 := (user_store ex_server_joined 0)\<lparr>encoded := encoded (user_store ex_server_joined 0) @
                  [\<lparr>Prefix = Some (server_Prefix ex_server_joined), Command = irc_ERR_NICKNAMEINUSE,
                    Params = [''ALICE''], Trailing = ''Nickname is already in use''\<rparr>]\<rparr>)"
    by (elim exE conjE)
  from h have "\<exists>s'. RenameUser ex_senv ex_server_joined 0 ''ALICE'' = Inr (s', False)
          \<and> users s' = users ex_server_joined
          \<and> Nick (user_store s' 0) = ''alice''
          \<and> encoded (user_store s' 0)
              = [\<lparr>Prefix = Some \<lparr>PName = ''matterircd'', PUser = [], PHost = []\<rparr>,
                  Command = ''433'', Params = [''ALICE''],
                  Trailing = ''Nickname is already in use''\<rparr>]"
    by (simp add: k irc_ERR_NICKNAMEINUSE_def)
  with n r t show ?thesis
    by (intro conjI)
qed

subsection \<open>The handshake\<close>

lemma handshake_msg_Continue_users:
  "handshake_msg se s u m = Inr (s', Continue) \<Longrightarrow> users s' = users s"
  by (auto simp: handshake_msg_def Let_def add_def upd_user_def EncodeMessage_def Encode_def
      split: option.splits if_splits sum.splits prod.splits)

lemma awaiting_users:
  "awaiting se s u msgs = Some s' \<Longrightarrow> users s' = users s"
proof (induction msgs arbitrary: s)
  case Nil
  then show ?case by simp
next
  case (Cons msg msgs)
  then show ?case
    by (auto split: sum.splits prod.splits step.splits dest: handshake_msg_Continue_users)
qed

lemma handshake_loop_awaiting:
  "1 \<le> i \<Longrightarrow> awaiting se s u (take (nat (i - 1)) msgs) = Some s' \<Longrightarrow>
   handshake_loop se i s u msgs = Inr (s', Some ErrHandshakeFailed)"
proof (induction msgs arbitrary: i s)
  case Nil
  then show ?case by simp
next
  case (Cons msg msgs)
  show ?case
  proof (cases "i - 1 = 0")
    case True
    with Cons.prems show ?thesis by simp
  next
    case False
    with Cons.prems(1) have i: "1 \<le> i - 1" by simp
    from False Cons.prems(1) have t: "nat (i - 1) = Suc (nat (i - 1 - 1))" by simp
    from Cons.prems(2) obtain s1 where
      m: "handshake_msg se s u msg = Inr (s1, Continue)"
      and a: "awaiting se s1 u (take (nat (i - 1 - 1)) msgs) = Some s'"
      by (auto simp: t split: sum.splits prod.splits step.splits)
    from Cons.IH [OF i a] m False show ?thesis by simp
  qed
qed

text \<open>
  C4: the messages of the handshake arrive each within ten seconds, and after the last of
  them none arrives for ten seconds. If the first 19 of them (all of them, when fewer
  arrive) leave the handshake awaiting the identity, so that NICK and USER have not led to
  a registration, then \<open>Connect\<close> fails with \<open>ErrHandshakeFailed\<close>: on the timer when
  fewer than 20 messages arrive, on the count when the 20th message is consumed. The
  connection is closed and the user map is the one before the handshake, as it is after
  every message on the way: the user never appears in it.
\<close>

theorem handshake_fails:
  assumes "awaiting se (upd_user u (\<lambda>usr. usr\<lparr>Host := conn_host usr\<rparr>) s) u (take 19 msgs) = Some s1"
  shows "Connect se s u msgs = Inr (Close u s1, Some ErrHandshakeFailed)
       \<and> closed (user_store (Close u s1) u)
       \<and> users (Close u s1) = users s
       \<and> (\<forall>n s'. awaiting se (upd_user u (\<lambda>usr. usr\<lparr>Host := conn_host usr\<rparr>) s) u
                      (take n (take 19 msgs)) = Some s' \<longrightarrow> users s' = users s)"
proof -
  have "handshake se s u msgs = Inr (s1, Some ErrHandshakeFailed)"
    using handshake_loop_awaiting [of 20 se _ u msgs s1] assms
    by (simp add: handshake_def handshakeMsgTolerance_def)
  then have c: "Connect se s u msgs = Inr (Close u s1, Some ErrHandshakeFailed)"
    by (simp add: Connect_def)
  have "users s1 = users s"
    using awaiting_users [OF assms] by (simp add: upd_user_def)
  then have f: "users (Close u s1) = users s" and d: "closed (user_store (Close u s1) u)"
    by (simp_all add: Close_def upd_user_def)
  have p: "users s' = users s"
    if "awaiting se (upd_user u (\<lambda>usr. usr\<lparr>Host := conn_host usr\<rparr>) s) u
          (take n (take 19 msgs)) = Some s'" for n s'
    using awaiting_users [OF that] by (simp add: upd_user_def)
  from c d f p show ?thesis by blast
qed

lemma awaiting_replicate_None:
  "awaiting se s u (replicate n None @ msgs) = awaiting se s u msgs"
  by (induction n) (simp_all add: handshake_msg_def)

theorem handshake_fails_witness:
  "awaiting ex_senv (upd_user 3 (\<lambda>usr. usr\<lparr>Host := conn_host usr\<rparr>) ex_server) 3
       (take 19 [ex_NICK ''dave'']) = Some ex_dave_waiting
   \<and> Connect ex_senv ex_server 3 [ex_NICK ''dave'']
       = Inr (Close 3 ex_dave_waiting, Some ErrHandshakeFailed)
   \<and> awaiting ex_senv (upd_user 3 (\<lambda>usr. usr\<lparr>Host := conn_host usr\<rparr>) ex_server) 3
       (take 19 (replicate 18 None @ [ex_NICK ''dave'', ex_USER ''dave''])) = Some ex_dave_waiting
   \<and> Connect ex_senv ex_server 3 (replicate 18 None @ [ex_NICK ''dave'', ex_USER ''dave''])
       = Inr (Close 3 ex_dave_waiting, Some ErrHandshakeFailed)
   \<and> closed (user_store (Close 3 ex_dave_waiting) 3)
   \<and> users (Close 3 ex_dave_waiting) = users ex_server
   \<and> users ex_server ''dave'' = None"
proof -
  have a: "awaiting ex_senv (upd_user 3 (\<lambda>usr. usr\<lparr>Host := conn_host usr\<rparr>) ex_server) 3
       [ex_NICK ''dave''] = Some ex_dave_waiting"
    by (simp add: handshake_msg_def Let_def ex_NICK_def irc_NICK_def irc_PASS_def
        ex_dave_waiting_def upd_user_def ex_server_def ex_user_def)
  have 1: "awaiting ex_senv (upd_user 3 (\<lambda>usr. usr\<lparr>Host := conn_host usr\<rparr>) ex_server) 3
       (take 19 [ex_NICK ''dave'']) = Some ex_dave_waiting"
    using a by simp
  have t: "take 19 (replicate 18 None @ [ex_NICK ''dave'', ex_USER ''dave''])
           = replicate 18 None @ [ex_NICK ''dave'']"
    by simp
  have 2: "awaiting ex_senv (upd_user 3 (\<lambda>usr. usr\<lparr>Host := conn_host usr\<rparr>) ex_server) 3
       (take 19 (replicate 18 None @ [ex_NICK ''dave'', ex_USER ''dave''])) = Some ex_dave_waiting"
    by (simp only: t awaiting_replicate_None a)
  have d: "users ex_server ''dave'' = None"
    by (simp add: ex_server_def)
  note t1 = handshake_fails [OF 1] and t2 = handshake_fails [OF 2]
  from t1 [THEN conjunct1] t2 [THEN conjunct1] t1 [THEN conjunct2, THEN conjunct1]
    t1 [THEN conjunct2, THEN conjunct2, THEN conjunct1] 1 2 d
  show ?thesis
    by simp
qed


end
